theory Spec2Isabelle
  imports Complex_Main "HOL-Library.Log_Nat"
begin

section \<open>JavaScript numbers\<close>

text \<open>
  The client is TypeScript; every \<^verbatim>\<open>number\<close> is an IEEE 754 binary64 value. A finite
  value is carried as the rational it denotes; the sign of zero is not modelled (no code
  path below observes it: \<^verbatim>\<open>JSON.stringify(-0)\<close> is \<^verbatim>\<open>0\<close>).
\<close>

datatype jsnum = NaN | PInf | NInf | Fin rat

definition pow2 :: "int \<Rightarrow> rat" where
  "pow2 e = (if 0 \<le> e then 2 ^ nat e else 1 / 2 ^ nat (- e))"

text \<open>\<open>ilog2 x\<close> is the binade of a positive rational: \<open>2 ^ ilog2 x \<le> x < 2 ^ (ilog2 x + 1)\<close>.\<close>

definition ilog2 :: "rat \<Rightarrow> int" where
  "ilog2 x = (if 1 \<le> x then bitlen \<lfloor>x\<rfloor> - 1 else - bitlen (\<lceil>1 / x\<rceil> - 1))"

definition round_half_even :: "rat \<Rightarrow> int" where
  "round_half_even x =
     (let f = \<lfloor>x\<rfloor>; d = x - of_int f
      in if d < 1 / 2 then f else if 1 / 2 < d then f + 1 else if even f then f else f + 1)"

text \<open>
  Rounding of an exact result to binary64, round-to-nearest, ties-to-even: 53 significant
  bits, exponents from \<open>-1022\<close> (below it the spacing stays \<open>2 ^ -1074\<close>) to \<open>1023\<close>,
  overflow to infinity.
\<close>

definition round64 :: "rat \<Rightarrow> jsnum" where
  "round64 x =
     (if x = 0 then Fin 0
      else let e = max (ilog2 \<bar>x\<bar>) (- 1022);
               u = pow2 (e - 52);
               y = of_int (round_half_even (\<bar>x\<bar> / u)) * u
           in if pow2 1024 \<le> y then (if 0 < x then PInf else NInf) else Fin (sgn x * y))"

text \<open>\<^verbatim>\<open>a <= b\<close>: false as soon as one side is NaN.\<close>

fun js_le :: "jsnum \<Rightarrow> jsnum \<Rightarrow> bool" where
  "js_le NaN _ = False"
| "js_le _ NaN = False"
| "js_le NInf _ = True"
| "js_le _ PInf = True"
| "js_le PInf _ = False"
| "js_le _ NInf = False"
| "js_le (Fin x) (Fin y) = (x \<le> y)"

text \<open>\<^verbatim>\<open>a * b\<close>.\<close>

fun js_mul :: "jsnum \<Rightarrow> jsnum \<Rightarrow> jsnum" where
  "js_mul NaN _ = NaN"
| "js_mul _ NaN = NaN"
| "js_mul (Fin x) (Fin y) = round64 (x * y)"
| "js_mul (Fin x) PInf = (if x = 0 then NaN else if 0 < x then PInf else NInf)"
| "js_mul (Fin x) NInf = (if x = 0 then NaN else if 0 < x then NInf else PInf)"
| "js_mul PInf (Fin y) = (if y = 0 then NaN else if 0 < y then PInf else NInf)"
| "js_mul NInf (Fin y) = (if y = 0 then NaN else if 0 < y then NInf else PInf)"
| "js_mul PInf PInf = PInf"
| "js_mul PInf NInf = NInf"
| "js_mul NInf PInf = NInf"
| "js_mul NInf NInf = PInf"

text \<open>\<^verbatim>\<open>isNaN(x)\<close> on a number, and the truthiness of a number (\<^verbatim>\<open>if (x)\<close>, \<^verbatim>\<open>!x\<close>).\<close>

definition isNaN :: "jsnum \<Rightarrow> bool" where
  "isNaN x = (x = NaN)"

definition truthy_num :: "jsnum \<Rightarrow> bool" where
  "truthy_num x = (x \<noteq> NaN \<and> x \<noteq> Fin 0)"

text \<open>
  \<^verbatim>\<open>x.toFixed(f)\<close> returns a string. For a finite \<open>x\<close> of magnitude below \<open>10 ^ 21\<close> it is
  the decimal \<open>n / 10 ^ f\<close> with \<open>f\<close> fraction digits, where \<open>n\<close> is the integer for which
  \<open>n / 10 ^ f - x\<close> is as close to zero as possible, the larger \<open>n\<close> on a tie, the sign of a
  negative \<open>x\<close> being split off first (ECMA-262, Number.prototype.toFixed). Otherwise
  it is \<^verbatim>\<open>String(x)\<close>. The client calls it with \<open>f = 2\<close>; an \<open>f\<close> above 100, on which it
  throws, does not occur.
\<close>

datatype numeric_string =
    Decimal int nat  \<comment> \<open>\<open>Decimal n f\<close>: the digits of \<open>n / 10 ^ f\<close>, \<open>f\<close> of them after the point\<close>
  | Plain jsnum      \<comment> \<open>\<^verbatim>\<open>String(x)\<close>\<close>

definition toFixed :: "jsnum \<Rightarrow> nat \<Rightarrow> numeric_string" where
  "toFixed x f =
     (case x of
        Fin v \<Rightarrow>
          if 10 ^ 21 \<le> \<bar>v\<bar> then Plain x
          else if v < 0 then Decimal (- \<lfloor>(- v) * 10 ^ f + 1 / 2\<rfloor>) f
          else Decimal \<lfloor>v * 10 ^ f + 1 / 2\<rfloor> f
      | _ \<Rightarrow> Plain x)"

text \<open>\<^verbatim>\<open>Number(s)\<close> on such a string: the binary64 value nearest to the decimal; \<^verbatim>\<open>String\<close>
  round-trips.\<close>

definition js_Number :: "numeric_string \<Rightarrow> jsnum" where
  "js_Number s = (case s of Decimal n f \<Rightarrow> round64 (of_int n / 10 ^ f) | Plain x \<Rightarrow> x)"

section \<open>Strings\<close>

text \<open>
  A string built by a template literal or by \<^verbatim>\<open>String(n)\<close> is kept as its pieces: literal
  characters, and the decimal rendering of a number (\<open>NumStr x\<close> stands for
  \<^verbatim>\<open>String(x)\<close>).
\<close>

datatype atom =
    Lit string
  | NumStr jsnum
  | EngineText string  \<comment> \<open>a message worded by the JavaScript engine; the string only names it\<close>

type_synonym jstr = "atom list"

fun atom_empty :: "atom \<Rightarrow> bool" where
  "atom_empty (Lit s) = (s = [])"
| "atom_empty (NumStr _) = False"
| "atom_empty (EngineText _) = False"

text \<open>Truthiness of a string: non-empty.\<close>

definition truthy_text :: "jstr \<Rightarrow> bool" where
  "truthy_text t = (\<not> list_all atom_empty t)"

section \<open>Values and JSON\<close>

datatype jsval =
    Undefined
  | Null
  | Bool bool
  | Number jsnum
  | String jstr
  | Array "jsval list"
  | Object "(string \<times> jsval) list"

text \<open>A number in JSON text: a non-finite one is written \<^verbatim>\<open>null\<close>.\<close>

definition json_number :: "jsnum \<Rightarrow> jsval" where
  "json_number n = (case n of Fin v \<Rightarrow> Number (Fin v) | _ \<Rightarrow> Null)"

text \<open>
  \<^verbatim>\<open>JSON.stringify\<close>, as the tree of the JSON text it produces: \<open>None\<close> where it returns
  \<^verbatim>\<open>undefined\<close>. An object field whose value is \<^verbatim>\<open>undefined\<close> is left out; in an array
  it becomes \<^verbatim>\<open>null\<close>.
\<close>

fun JSON_stringify :: "jsval \<Rightarrow> jsval option"
  and stringify_fields :: "(string \<times> jsval) list \<Rightarrow> (string \<times> jsval) list"
  and stringify_items :: "jsval list \<Rightarrow> jsval list" where
  "JSON_stringify Undefined = None"
| "JSON_stringify Null = Some Null"
| "JSON_stringify (Bool b) = Some (Bool b)"
| "JSON_stringify (Number n) = Some (json_number n)"
| "JSON_stringify (String s) = Some (String s)"
| "JSON_stringify (Array xs) = Some (Array (stringify_items xs))"
| "JSON_stringify (Object kvs) = Some (Object (stringify_fields kvs))"
| "stringify_fields [] = []"
| "stringify_fields ((k, v) # kvs) =
     (case JSON_stringify v of
        None \<Rightarrow> stringify_fields kvs
      | Some j \<Rightarrow> (k, j) # stringify_fields kvs)"
| "stringify_items [] = []"
| "stringify_items (x # xs) =
     (case JSON_stringify x of None \<Rightarrow> Null | Some j \<Rightarrow> j) # stringify_items xs"

text \<open>
  Property read \<^verbatim>\<open>v.k\<close> / \<^verbatim>\<open>v[k]\<close> for a key that is no built-in property: it throws on
  \<^verbatim>\<open>null\<close> and \<^verbatim>\<open>undefined\<close> (\<open>None\<close>), gives the field of an object, and
  \<^verbatim>\<open>undefined\<close> on anything else.
\<close>

fun js_get :: "jsval \<Rightarrow> string \<Rightarrow> jsval option" where
  "js_get Undefined k = None"
| "js_get Null k = None"
| "js_get (Object kvs) k = Some (case map_of kvs k of None \<Rightarrow> Undefined | Some v \<Rightarrow> v)"
| "js_get _ k = Some Undefined"

text \<open>Optional chaining \<^verbatim>\<open>v?.k\<close> / \<^verbatim>\<open>v?.[k]\<close>.\<close>

definition js_get_opt :: "jsval \<Rightarrow> string \<Rightarrow> jsval" where
  "js_get_opt v k = (case js_get v k of None \<Rightarrow> Undefined | Some x \<Rightarrow> x)"

section \<open>HTTP\<close>

text \<open>
  A URL is the text of a template literal, optionally followed by \<^verbatim>\<open>?\<close> and the
  serialisation of a \<^verbatim>\<open>URLSearchParams\<close> (its entries in insertion order).
\<close>

datatype url = Url jstr | UrlQuery jstr "(string \<times> jstr) list"

record request =
  http_method :: string
  url :: url
  headers :: "(string \<times> string) list"
  body :: "jsval option"   \<comment> \<open>the JSON text sent, as its tree\<close>

text \<open>
  A response: \<open>ok\<close> is \<^verbatim>\<open>response.ok\<close>; \<open>payload\<close> is what \<^verbatim>\<open>response.json()\<close>
  resolves to, or \<open>None\<close> when the body is not JSON and it rejects with a SyntaxError.
  \<^verbatim>\<open>fetch\<close> itself rejects with a TypeError when the request cannot be made.
\<close>

record response =
  ok :: bool
  status :: nat
  payload :: "jsval option"

datatype fetch_result = Rejected | Response response

datatype js_error = Error jstr | TypeError jstr | SyntaxError jstr

text \<open>
  The world outside the client: the requests sent so far, and the state of whatever
  answers them. The answering side is a parameter \<open>net\<close> of every operation.
\<close>

record 'w world =
  log :: "request list"
  server :: 'w

type_synonym 'w network = "'w \<Rightarrow> request \<Rightarrow> fetch_result \<times> 'w"

definition fetch :: "'w network \<Rightarrow> request \<Rightarrow> 'w world \<Rightarrow> fetch_result \<times> 'w world" where
  "fetch net req w =
     (case net (server w) req of
        (r, s') \<Rightarrow> (r, \<lparr>log = log w @ [req], server = s'\<rparr>))"

section \<open>The API client\<close>

text \<open>
  Every call of the client has the same shape: \<^verbatim>\<open>fetch\<close>; when \<^verbatim>\<open>!response.ok\<close>, read the
  body as JSON and throw an \<^verbatim>\<open>Error\<close> whose message is its \<^verbatim>\<open>detail\<close> when that is a string
  and a fixed fallback otherwise; else return the body read as JSON. Reading \<^verbatim>\<open>detail\<close>
  of \<^verbatim>\<open>null\<close> throws a TypeError.
\<close>

definition api_call ::
  "'w network \<Rightarrow> request \<Rightarrow> string \<Rightarrow> 'w world \<Rightarrow> (js_error + jsval) \<times> 'w world" where
  "api_call net req fallback w =
     (case fetch net req w of
        (Rejected, w') \<Rightarrow> (Inl (TypeError [EngineText ''fetch failed'']), w')
      | (Response res, w') \<Rightarrow>
          (case payload res of
             None \<Rightarrow> (Inl (SyntaxError [EngineText ''body is not JSON'']), w')
           | Some j \<Rightarrow>
               if \<not> ok res then
                 (case js_get j ''detail'' of
                    None \<Rightarrow> (Inl (TypeError [EngineText ''property read on null'']), w')
                  | Some (String s) \<Rightarrow> (Inl (Error s), w')
                  | Some _ \<Rightarrow> (Inl (Error [Lit fallback]), w'))
               else (Inr j, w')))"

definition json_headers :: "(string \<times> string) list" where
  "json_headers = [(''Content-Type'', ''application/json''), (''Accept'', ''application/json'')]"

text \<open>\<open>backendURL\<close> is \<^verbatim>\<open>config.backendURL\<close>.\<close>

definition getUserAccounts ::
  "'w network \<Rightarrow> string \<Rightarrow> jsnum \<Rightarrow> 'w world \<Rightarrow> (js_error + jsval) \<times> 'w world" where
  "getUserAccounts net backendURL userId =
     api_call net
       \<lparr>http_method = ''GET'',
        url = Url [Lit (backendURL @ ''/api/accounts/user/''), NumStr userId],
        headers = [(''Accept'', ''application/json'')],
        body = None\<rparr>
       ''Failed to fetch accounts''"

definition createAccount ::
  "'w network \<Rightarrow> string \<Rightarrow> jsval \<Rightarrow> 'w world \<Rightarrow> (js_error + jsval) \<times> 'w world" where
  "createAccount net backendURL data =
     api_call net
       \<lparr>http_method = ''POST'',
        url = Url [Lit (backendURL @ ''/api/accounts'')],
        headers = json_headers,
        body = JSON_stringify data\<rparr>
       ''Failed to create account''"

text \<open>The optional \<^verbatim>\<open>filters\<close> argument of \<^verbatim>\<open>getUserTransactions\<close>; \<open>None\<close> is an absent field.\<close>

record filters =
  account_id :: "jsnum option"
  transaction_type :: "jstr option"
  skip :: "jsnum option"
  limit :: "jsnum option"

definition getUserTransactions ::
  "'w network \<Rightarrow> string \<Rightarrow> jsnum \<Rightarrow> filters option \<Rightarrow> 'w world
     \<Rightarrow> (js_error + jsval) \<times> 'w world" where
  "getUserTransactions net backendURL userId fs =
     (let params =
            [(''skip'', [NumStr (case Option.bind fs skip of None \<Rightarrow> Fin 0 | Some n \<Rightarrow> n)]),
             (''limit'', [NumStr (case Option.bind fs limit of None \<Rightarrow> Fin 100 | Some n \<Rightarrow> n)])]
            @ (case Option.bind fs account_id of
                 None \<Rightarrow> []
               | Some a \<Rightarrow> if truthy_num a then [(''account_id'', [NumStr a])] else [])
            @ (case Option.bind fs transaction_type of
                 None \<Rightarrow> []
               | Some t \<Rightarrow> if truthy_text t then [(''transaction_type'', t)] else [])
      in api_call net
           \<lparr>http_method = ''GET'',
            url = UrlQuery [Lit (backendURL @ ''/api/transactions/user/''), NumStr userId] params,
            headers = [(''Accept'', ''application/json'')],
            body = None\<rparr>
           ''Failed to fetch transactions'')"

definition createDeposit ::
  "'w network \<Rightarrow> string \<Rightarrow> jsnum \<Rightarrow> jsval \<Rightarrow> 'w world \<Rightarrow> (js_error + jsval) \<times> 'w world" where
  "createDeposit net backendURL userId data =
     api_call net
       \<lparr>http_method = ''POST'',
        url = Url [Lit (backendURL @ ''/api/transactions/deposit?user_id=''), NumStr userId],
        headers = json_headers,
        body = JSON_stringify data\<rparr>
       ''Failed to create deposit''"

definition createWithdrawal ::
  "'w network \<Rightarrow> string \<Rightarrow> jsnum \<Rightarrow> jsval \<Rightarrow> 'w world \<Rightarrow> (js_error + jsval) \<times> 'w world" where
  "createWithdrawal net backendURL userId data =
     api_call net
       \<lparr>http_method = ''POST'',
        url = Url [Lit (backendURL @ ''/api/transactions/withdrawal?user_id=''), NumStr userId],
        headers = json_headers,
        body = JSON_stringify data\<rparr>
       ''Failed to create withdrawal''"

definition createTransfer ::
  "'w network \<Rightarrow> string \<Rightarrow> jsnum \<Rightarrow> jsval \<Rightarrow> 'w world \<Rightarrow> (js_error + jsval) \<times> 'w world" where
  "createTransfer net backendURL userId data =
     api_call net
       \<lparr>http_method = ''POST'',
        url = Url [Lit (backendURL @ ''/api/transactions/transfer?user_id=''), NumStr userId],
        headers = json_headers,
        body = JSON_stringify data\<rparr>
       ''Failed to create transfer''"

subsection \<open>Crypto rates\<close>

datatype SupportedCrypto = BTC | ETH | USDT

fun symbol_name :: "SupportedCrypto \<Rightarrow> string" where
  "symbol_name BTC = ''BTC''"
| "symbol_name ETH = ''ETH''"
| "symbol_name USDT = ''USDT''"

fun idMap :: "SupportedCrypto \<Rightarrow> string" where
  "idMap BTC = ''bitcoin''"
| "idMap ETH = ''ethereum''"
| "idMap USDT = ''tether''"

text \<open>\<^verbatim>\<open>xs.join(',')\<close>.\<close>

fun join_comma :: "string list \<Rightarrow> string" where
  "join_comma [] = []"
| "join_comma [x] = x"
| "join_comma (x # y # ys) = x @ '','' @ join_comma (y # ys)"

text \<open>
  The \<^verbatim>\<open>forEach\<close> over the requested symbols: the first symbol whose
  \<^verbatim>\<open>data?.[id]?.kzt\<close> is not a number throws, and the exception leaves the function.
\<close>

fun collect_rates ::
  "jsval \<Rightarrow> SupportedCrypto list \<Rightarrow> (SupportedCrypto \<rightharpoonup> jsnum)
     \<Rightarrow> js_error + (SupportedCrypto \<rightharpoonup> jsnum)" where
  "collect_rates data [] result = Inr result"
| "collect_rates data (s # ss) result =
     (case js_get_opt (js_get_opt data (idMap s)) ''kzt'' of
        Number price \<Rightarrow> collect_rates data ss (result(s \<mapsto> price))
      | _ \<Rightarrow> Inl (Error [Lit (''Rate for '' @ symbol_name s @ '' not available'')]))"

definition getCryptoRatesKZT ::
  "'w network \<Rightarrow> SupportedCrypto list \<Rightarrow> 'w world
     \<Rightarrow> (js_error + (SupportedCrypto \<rightharpoonup> jsnum)) \<times> 'w world" where
  "getCryptoRatesKZT net symbols w =
     (case fetch net
             \<lparr>http_method = ''GET'',
              url = Url [Lit (''https://api.coingecko.com/api/v3/simple/price?ids=''
                              @ join_comma (map idMap symbols) @ ''&vs_currencies=kzt'')],
              headers = [],
              body = None\<rparr> w of
        (Rejected, w') \<Rightarrow> (Inl (TypeError [EngineText ''fetch failed'']), w')
      | (Response res, w') \<Rightarrow>
          if \<not> ok res then (Inl (Error [Lit ''Failed to fetch crypto rates'']), w')
          else (case payload res of
                  None \<Rightarrow> (Inl (SyntaxError [EngineText ''body is not JSON'']), w')
                | Some data \<Rightarrow> (collect_rates data symbols Map.empty, w')))"

subsection \<open>Conversion\<close>

record convert_params =
  userId :: jsnum
  fromAccountId :: jsnum
  fromSymbol :: SupportedCrypto
  amountCrypto :: jsnum
  toKZTAccountId :: jsnum
  rateKZTPerCrypto :: jsnum

record conversion =
  withdrawal :: jsval
  deposit :: jsval
  kztAmount :: jsnum

text \<open>The two request objects \<^verbatim>\<open>convertCryptoToKZT\<close> builds.\<close>

definition withdrawal_data :: "convert_params \<Rightarrow> jsval" where
  "withdrawal_data p =
     Object [(''account_id'', Number (fromAccountId p)),
             (''amount'', Number (amountCrypto p)),
             (''currency'', String [Lit (symbol_name (fromSymbol p))]),
             (''description'',
                String [Lit ''Convert '', NumStr (amountCrypto p), Lit '' '',
                        Lit (symbol_name (fromSymbol p)), Lit '' to KZT''])]"

definition deposit_data :: "convert_params \<Rightarrow> jsval" where
  "deposit_data p =
     Object [(''account_id'', Number (toKZTAccountId p)),
             (''amount'',
                Number (js_Number (toFixed (js_mul (amountCrypto p) (rateKZTPerCrypto p)) 2))),
             (''currency'', String [Lit ''KZT'']),
             (''description'',
                String [Lit ''Converted from '', NumStr (amountCrypto p), Lit '' '',
                        Lit (symbol_name (fromSymbol p))])]"

definition convertCryptoToKZT ::
  "'w network \<Rightarrow> string \<Rightarrow> convert_params \<Rightarrow> 'w world
     \<Rightarrow> (js_error + conversion) \<times> 'w world" where
  "convertCryptoToKZT net backendURL p w =
     (if js_le (amountCrypto p) (Fin 0) then (Inl (Error [Lit ''Amount must be positive'']), w)
      else
        case createWithdrawal net backendURL (userId p) (withdrawal_data p) w of
          (Inl e, w1) \<Rightarrow> (Inl e, w1)
        | (Inr wd, w1) \<Rightarrow>
            (case createDeposit net backendURL (userId p) (deposit_data p) w1 of
               (Inl e, w2) \<Rightarrow> (Inl e, w2)
             | (Inr dp, w2) \<Rightarrow>
                 (Inr \<lparr>withdrawal = wd, deposit = dp,
                        kztAmount = js_mul (amountCrypto p) (rateKZTPerCrypto p)\<rparr>, w2)))"

section \<open>The wallet screen\<close>

subsection \<open>Parsing form input\<close>

text \<open>
  \<^verbatim>\<open>parseFloat\<close> and \<^verbatim>\<open>parseInt\<close> (no radix argument) on ASCII input: leading white space is
  skipped, the longest prefix that is a literal is read, anything after it is ignored, and
  the result is NaN when there is no such prefix.
\<close>

definition is_space :: "char \<Rightarrow> bool" where
  "is_space c = (c \<in> set [CHR 0x09, CHR 0x0A, CHR 0x0B, CHR 0x0C, CHR 0x0D, CHR 0x20])"

definition is_digit :: "char \<Rightarrow> bool" where
  "is_digit c = (c \<in> set ''0123456789'')"

definition digits_value :: "string \<Rightarrow> nat" where
  "digits_value ds = foldl (\<lambda>n c. 10 * n + (of_char c - 48)) 0 ds"

definition pow10 :: "int \<Rightarrow> rat" where
  "pow10 e = (if 0 \<le> e then 10 ^ nat e else 1 / 10 ^ nat (- e))"

text \<open>An optional sign: whether it is \<^verbatim>\<open>-\<close>, and the rest.\<close>

fun split_sign :: "string \<Rightarrow> bool \<times> string" where
  "split_sign [] = (False, [])"
| "split_sign (c # cs) =
     (if c = CHR ''-'' then (True, cs) else if c = CHR ''+'' then (False, cs) else (False, c # cs))"

text \<open>An exponent part \<^verbatim>\<open>e\<close>, sign, digits is read only when it has digits.\<close>

fun exponent_part :: "string \<Rightarrow> int" where
  "exponent_part [] = 0"
| "exponent_part (c # cs) =
     (if c = CHR ''e'' \<or> c = CHR ''E'' then
        (case split_sign cs of
           (neg, ds) \<Rightarrow>
             let ed = takeWhile is_digit ds
             in if ed = [] then 0
                else if neg then - int (digits_value ed) else int (digits_value ed))
      else 0)"

definition parseFloat :: "string \<Rightarrow> jsnum" where
  "parseFloat s =
     (case split_sign (dropWhile is_space s) of
        (neg, u) \<Rightarrow>
          if take 8 u = ''Infinity'' then (if neg then NInf else PInf)
          else
            let ip = takeWhile is_digit u;
                r1 = dropWhile is_digit u;
                has_dot = (r1 \<noteq> [] \<and> hd r1 = CHR ''.'');
                fp = (if has_dot then takeWhile is_digit (tl r1) else []);
                r2 = (if has_dot then dropWhile is_digit (tl r1) else r1)
            in if ip = [] \<and> fp = [] then NaN
               else
                 let m = rat_of_nat (digits_value (ip @ fp))
                           * pow10 (exponent_part r2 - int (length fp))
                 in round64 (if neg then - m else m))"

definition is_hex_digit :: "char \<Rightarrow> bool" where
  "is_hex_digit c = (c \<in> set ''0123456789abcdefABCDEF'')"

definition hex_digit_value :: "char \<Rightarrow> nat" where
  "hex_digit_value c =
     (if is_digit c then of_char c - 48
      else if c \<in> set ''abcdef'' then of_char c - 87
      else of_char c - 55)"

definition parseInt :: "string \<Rightarrow> jsnum" where
  "parseInt s =
     (case split_sign (dropWhile is_space s) of
        (neg, u) \<Rightarrow>
          let hex = (take 2 u = ''0x'' \<or> take 2 u = ''0X'');
              ds = (if hex then takeWhile is_hex_digit (drop 2 u) else takeWhile is_digit u)
          in if ds = [] then NaN
             else
               let m = rat_of_nat
                         (if hex then foldl (\<lambda>n c. 16 * n + hex_digit_value c) 0 ds
                          else digits_value ds)
               in round64 (if neg then - m else m))"

subsection \<open>Screen state\<close>

record UserData =
  uid :: jsnum      \<comment> \<open>the field \<^verbatim>\<open>id\<close>\<close>
  name :: string
  surname :: string
  email :: string

datatype TransactionModalType = ModalDeposit | ModalWithdrawal | ModalTransfer

text \<open>
  An alert shown to the user: on the web \<^verbatim>\<open>alert(message)\<close>, which has no title, elsewhere
  \<^verbatim>\<open>Alert.alert(title, message)\<close>.
\<close>

datatype alert = Alert "string option" jstr

definition show_alert :: "bool \<Rightarrow> jstr \<Rightarrow> string \<Rightarrow> jstr \<Rightarrow> alert" where
  "show_alert web web_message title message =
     (if web then Alert None web_message else Alert (Some title) message)"

text \<open>
  The React state of \<^verbatim>\<open>TransactionsScreen\<close>, with the alerts raised so far. \<open>account\<close>
  and \<open>transactions\<close> hold what the backend answered, as it came.
\<close>

record screen =
  user :: "UserData option"
  account :: jsval
  transactions :: jsval
  loading :: bool
  refreshing :: bool
  modalType :: "TransactionModalType option"
  processing :: bool
  amount :: string
  toAccountId :: string
  description :: string
  alerts :: "alert list"

fun message :: "js_error \<Rightarrow> jstr" where
  "message (Error m) = m"
| "message (TypeError m) = m"
| "message (SyntaxError m) = m"

text \<open>Truthiness of a value (\<^verbatim>\<open>!account\<close>).\<close>

fun truthy :: "jsval \<Rightarrow> bool" where
  "truthy Undefined = False"
| "truthy Null = False"
| "truthy (Bool b) = b"
| "truthy (Number n) = truthy_num n"
| "truthy (String t) = truthy_text t"
| "truthy (Array _) = True"
| "truthy (Object _) = True"

subsection \<open>\<^verbatim>\<open>loadData\<close>\<close>

text \<open>The \<^verbatim>\<open>catch\<close> and \<^verbatim>\<open>finally\<close> blocks of \<^verbatim>\<open>loadData\<close>.\<close>

definition load_failed :: "bool \<Rightarrow> js_error \<Rightarrow> screen \<Rightarrow> screen" where
  "load_failed web e s =
     (let errorMessage =
            (if truthy_text (message e) then message e
             else [Lit ''Failed to load data. Please try again.''])
      in s\<lparr>alerts := alerts s @
                  [show_alert web (Lit ''Error loading data: '' # errorMessage)
                     ''Error loading data'' errorMessage],
            loading := False\<rparr>)"

definition default_account :: "jsnum \<Rightarrow> jsval" where
  "default_account user_id =
     Object [(''user_id'', Number user_id),
             (''account_type'', String [Lit ''checking'']),
             (''balance'', Number (Fin 0)),
             (''currency'', String [Lit ''KZT''])]"

text \<open>
  The account list is read at its declared type \<^verbatim>\<open>Account[]\<close>: a backend answer that is
  not an array is outside this model, and the result is \<open>None\<close>. Logging is left out,
  except that \<^verbatim>\<open>transactionsData.length\<close>, evaluated for a log line, throws on
  \<^verbatim>\<open>null\<close>.
\<close>

definition loadData ::
  "'w network \<Rightarrow> string \<Rightarrow> bool \<Rightarrow> screen \<Rightarrow> 'w world \<Rightarrow> (screen \<times> 'w world) option" where
  "loadData net backendURL web s w =
     (case user s of
        None \<Rightarrow> Some (s, w)
      | Some u \<Rightarrow>
          if \<not> truthy_num (uid u) then Some (s, w)
          else
            let s1 = s\<lparr>loading := True\<rparr>
            in (case getUserAccounts net backendURL (uid u) w of
                 (Inl e, w1) \<Rightarrow> Some (load_failed web e s1, w1)
               | (Inr (Array accountsData), w1) \<Rightarrow>
                   (case (if accountsData = [] then
                            (case createAccount net backendURL (default_account (uid u)) w1 of
                               (Inl e, w2) \<Rightarrow> (Inl e, w2)
                             | (Inr newAccount, w2) \<Rightarrow> (Inr [newAccount], w2))
                          else (Inr accountsData, w1)) of
                      (Inl e, w2) \<Rightarrow> Some (load_failed web e s1, w2)
                    | (Inr accountsData', w2) \<Rightarrow>
                        (case getUserTransactions net backendURL (uid u)
                                (Some \<lparr>account_id = None, transaction_type = None,
                                       skip = None, limit = Some (Fin 100)\<rparr>) w2 of
                           (Inl e, w3) \<Rightarrow> Some (load_failed web e s1, w3)
                         | (Inr transactionsData, w3) \<Rightarrow>
                             if transactionsData = Null \<or> transactionsData = Undefined then
                               Some (load_failed web
                                       (TypeError [EngineText ''property read on null'']) s1, w3)
                             else
                               Some (s1\<lparr>account :=
                                           (case accountsData' of
                                              [] \<Rightarrow> account s1
                                            | a # _ \<Rightarrow> a),
                                         transactions := transactionsData,
                                         loading := False\<rparr>, w3)))
               | (Inr _, w1) \<Rightarrow> None))"

subsection \<open>\<^verbatim>\<open>handleTransaction\<close>\<close>

definition closeModal :: "screen \<Rightarrow> screen" where
  "closeModal s = s\<lparr>modalType := None, amount := [], toAccountId := [], description := []\<rparr>"

text \<open>\<^verbatim>\<open>description || undefined\<close>.\<close>

definition description_or_undefined :: "string \<Rightarrow> jsval" where
  "description_or_undefined d = (if d = [] then Undefined else String [Lit d])"

text \<open>The \<^verbatim>\<open>catch\<close> block of \<^verbatim>\<open>handleTransaction\<close>; every thrown value here is an \<^verbatim>\<open>Error\<close>.\<close>

definition transaction_failed :: "bool \<Rightarrow> js_error \<Rightarrow> screen \<Rightarrow> screen" where
  "transaction_failed web e s =
     s\<lparr>alerts := alerts s @ [show_alert web (Lit ''Error: '' # message e) ''Error'' (message e)],
       processing := False\<rparr>"

text \<open>What follows a request that succeeded: close the form, reload, report.\<close>

definition transaction_done ::
  "'w network \<Rightarrow> string \<Rightarrow> bool \<Rightarrow> screen \<Rightarrow> 'w world \<Rightarrow> (screen \<times> 'w world) option" where
  "transaction_done net backendURL web s w =
     (case loadData net backendURL web (closeModal s) w of
        None \<Rightarrow> None
      | Some (s', w') \<Rightarrow>
          Some (s'\<lparr>alerts := alerts s' @
                        [show_alert web [Lit ''Transaction completed successfully!'']
                           ''Success'' [Lit ''Transaction completed successfully!'']],
                   processing := False\<rparr>, w'))"

text \<open>
  \<open>account s\<close> is truthy where \<^verbatim>\<open>account.id\<close> is read, so the read does not throw.
\<close>

definition handleTransaction ::
  "'w network \<Rightarrow> string \<Rightarrow> bool \<Rightarrow> screen \<Rightarrow> 'w world \<Rightarrow> (screen \<times> 'w world) option" where
  "handleTransaction net backendURL web s w =
     (case user s of
        None \<Rightarrow> Some (s, w)
      | Some u \<Rightarrow>
          if \<not> truthy (account s) then Some (s, w)
          else
            let amountNum = parseFloat (amount s)
            in if isNaN amountNum \<or> js_le amountNum (Fin 0) then
                 Some (s\<lparr>alerts := alerts s @
                              [show_alert web [Lit ''Please enter a valid amount'']
                                 ''Invalid Amount'' [Lit ''Please enter a valid amount'']]\<rparr>, w)
               else
                 let s1 = s\<lparr>processing := True\<rparr>
                 in (case modalType s of
                      None \<Rightarrow> transaction_done net backendURL web s1 w
                    | Some ModalDeposit \<Rightarrow>
                        (case createDeposit net backendURL (uid u)
                                (Object [(''account_id'', js_get_opt (account s) ''id''),
                                         (''amount'', Number amountNum),
                                         (''currency'', String [Lit ''KZT'']),
                                         (''description'', description_or_undefined (description s))])
                                w of
                           (Inl e, w1) \<Rightarrow> Some (transaction_failed web e s1, w1)
                         | (Inr _, w1) \<Rightarrow> transaction_done net backendURL web s1 w1)
                    | Some ModalWithdrawal \<Rightarrow>
                        (case createWithdrawal net backendURL (uid u)
                                (Object [(''account_id'', js_get_opt (account s) ''id''),
                                         (''amount'', Number amountNum),
                                         (''currency'', String [Lit ''KZT'']),
                                         (''description'', description_or_undefined (description s))])
                                w of
                           (Inl e, w1) \<Rightarrow> Some (transaction_failed web e s1, w1)
                         | (Inr _, w1) \<Rightarrow> transaction_done net backendURL web s1 w1)
                    | Some ModalTransfer \<Rightarrow>
                        let toAccountIdNum = parseInt (toAccountId s)
                        in if isNaN toAccountIdNum \<or> js_le toAccountIdNum (Fin 0) then
                             Some (s1\<lparr>alerts := alerts s1 @
                                           [show_alert web [Lit ''Please enter a valid account ID'']
                                              ''Invalid Account ID''
                                              [Lit ''Please enter a valid account ID'']],
                                       processing := False\<rparr>, w)
                           else
                             (case createTransfer net backendURL (uid u)
                                     (Object [(''from_account_id'', js_get_opt (account s) ''id''),
                                              (''to_account_id'', Number toAccountIdNum),
                                              (''amount'', Number amountNum),
                                              (''currency'', String [Lit ''KZT'']),
                                              (''description'',
                                                 description_or_undefined (description s))])
                                     w of
                                (Inl e, w1) \<Rightarrow> Some (transaction_failed web e s1, w1)
                              | (Inr _, w1) \<Rightarrow> transaction_done net backendURL web s1 w1)))"

section \<open>A scripted network\<close>

text \<open>
  For concrete runs: a network that answers the requests it receives with a prepared
  list of results, in order, and refuses once the list is used up.
\<close>

fun scripted :: "fetch_result list network" where
  "scripted [] req = (Rejected, [])"
| "scripted (r # rs) req = (r, rs)"

section \<open>What the requests carry\<close>

text \<open>Reading a request as sent: a field of its JSON body, the keys of the body, the query.\<close>

definition request_field :: "request \<Rightarrow> string \<Rightarrow> jsval" where
  "request_field req k = (case body req of None \<Rightarrow> Undefined | Some b \<Rightarrow> js_get_opt b k)"

definition body_keys :: "request \<Rightarrow> string list" where
  "body_keys req = (case body req of Some (Object kvs) \<Rightarrow> map fst kvs | _ \<Rightarrow> [])"

definition query :: "request \<Rightarrow> (string \<times> jstr) list" where
  "query req = (case url req of UrlQuery _ ps \<Rightarrow> ps | Url _ \<Rightarrow> [])"

definition is_string :: "jsval \<Rightarrow> bool" where
  "is_string v = (case v of String _ \<Rightarrow> True | _ \<Rightarrow> False)"

text \<open>The keys on which the JSON bodies of two requests hold the same value.\<close>

definition shared_fields :: "request \<Rightarrow> request \<Rightarrow> string list" where
  "shared_fields a b =
     (case (body a, body b) of
        (Some (Object xs), Some (Object ys)) \<Rightarrow>
          filter (\<lambda>k. map_of xs k = map_of ys k) (map fst xs)
      | _ \<Rightarrow> [])"

text \<open>The two requests of a conversion, as \<^verbatim>\<open>createWithdrawal\<close> and \<^verbatim>\<open>createDeposit\<close> send them.\<close>

definition withdrawal_request :: "string \<Rightarrow> convert_params \<Rightarrow> request" where
  "withdrawal_request backendURL p =
     \<lparr>http_method = ''POST'',
      url = Url [Lit (backendURL @ ''/api/transactions/withdrawal?user_id=''), NumStr (userId p)],
      headers = json_headers,
      body = JSON_stringify (withdrawal_data p)\<rparr>"

definition deposit_request :: "string \<Rightarrow> convert_params \<Rightarrow> request" where
  "deposit_request backendURL p =
     \<lparr>http_method = ''POST'',
      url = Url [Lit (backendURL @ ''/api/transactions/deposit?user_id=''), NumStr (userId p)],
      headers = json_headers,
      body = JSON_stringify (deposit_data p)\<rparr>"

text \<open>
  A compensating reversal of the withdrawal leg would be a deposit request for the same
  user that credits the withdrawn amount back to the source account.
\<close>

definition is_reversal_of :: "string \<Rightarrow> convert_params \<Rightarrow> request \<Rightarrow> bool" where
  "is_reversal_of backendURL p req =
     (url req = Url [Lit (backendURL @ ''/api/transactions/deposit?user_id=''), NumStr (userId p)]
      \<and> request_field req ''account_id'' = json_number (fromAccountId p)
      \<and> request_field req ''amount'' = json_number (amountCrypto p))"

text \<open>
  The fiat amount as the specification words it: the product of amount and rate rounded
  to 2 decimal places, round-half-even.
\<close>

definition spec_fiat_amount :: "rat \<Rightarrow> rat \<Rightarrow> rat" where
  "spec_fiat_amount a r = rat_of_int (round_half_even (a * r * 100)) / 100"

text \<open>The rate request, and the rate a provider answer holds for a symbol, if a number.\<close>

definition rates_request :: "SupportedCrypto list \<Rightarrow> request" where
  "rates_request symbols =
     \<lparr>http_method = ''GET'',
      url = Url [Lit (''https://api.coingecko.com/api/v3/simple/price?ids=''
                      @ join_comma (map idMap symbols) @ ''&vs_currencies=kzt'')],
      headers = [],
      body = None\<rparr>"

definition quoted :: "jsval \<Rightarrow> SupportedCrypto \<Rightarrow> jsnum option" where
  "quoted data s =
     (case js_get_opt (js_get_opt data (idMap s)) ''kzt'' of
        Number price \<Rightarrow> Some price
      | _ \<Rightarrow> None)"

text \<open>The three requests of \<^verbatim>\<open>loadData\<close>.\<close>

definition accounts_request :: "string \<Rightarrow> jsnum \<Rightarrow> request" where
  "accounts_request backendURL user_id =
     \<lparr>http_method = ''GET'',
      url = Url [Lit (backendURL @ ''/api/accounts/user/''), NumStr user_id],
      headers = [(''Accept'', ''application/json'')],
      body = None\<rparr>"

definition create_account_request :: "string \<Rightarrow> jsnum \<Rightarrow> request" where
  "create_account_request backendURL user_id =
     \<lparr>http_method = ''POST'',
      url = Url [Lit (backendURL @ ''/api/accounts'')],
      headers = json_headers,
      body = JSON_stringify (default_account user_id)\<rparr>"

definition transactions_request :: "string \<Rightarrow> jsnum \<Rightarrow> request" where
  "transactions_request backendURL user_id =
     \<lparr>http_method = ''GET'',
      url = UrlQuery [Lit (backendURL @ ''/api/transactions/user/''), NumStr user_id]
              [(''skip'', [NumStr (Fin 0)]), (''limit'', [NumStr (Fin 100)])],
      headers = [(''Accept'', ''application/json'')],
      body = None\<rparr>"

section \<open>Concrete runs\<close>

text \<open>
  A conversion of 0.125 BTC at 25,000,001 KZT per BTC, from account 1 to account 2 of
  user 7. The product, 3,125,000.125, is a binary64 value and lies exactly half-way
  between two multiples of 0.01.
\<close>

definition example_url :: string where
  "example_url = ''http://backend''"

definition p_tie :: convert_params where
  "p_tie = \<lparr>userId = Fin 7, fromAccountId = Fin 1, fromSymbol = BTC, amountCrypto = Fin (1 / 8),
            toKZTAccountId = Fin 2, rateKZTPerCrypto = Fin 25000001\<rparr>"

definition tx_withdrawal :: jsval where
  "tx_withdrawal =
     Object [(''id'', Number (Fin 101)), (''user_id'', Number (Fin 7)),
             (''account_id'', Number (Fin 1)), (''amount'', String [Lit ''0.125'']),
             (''currency'', String [Lit ''BTC'']),
             (''transaction_type'', String [Lit ''withdrawal''])]"

definition tx_deposit :: jsval where
  "tx_deposit =
     Object [(''id'', Number (Fin 102)), (''user_id'', Number (Fin 7)),
             (''account_id'', Number (Fin 2)), (''amount'', String [Lit ''3125000.13'']),
             (''currency'', String [Lit ''KZT'']),
             (''transaction_type'', String [Lit ''deposit''])]"

definition answer :: "jsval \<Rightarrow> fetch_result" where
  "answer j = Response \<lparr>ok = True, status = 200, payload = Some j\<rparr>"

definition refusal :: "nat \<Rightarrow> string \<Rightarrow> fetch_result" where
  "refusal code detail =
     Response \<lparr>ok = False, status = code, payload = Some (Object [(''detail'', String [Lit detail])])\<rparr>"

definition w_both_succeed :: "fetch_result list world" where
  "w_both_succeed = \<lparr>log = [], server = [answer tx_withdrawal, answer tx_deposit]\<rparr>"

definition w_deposit_fails :: "fetch_result list world" where
  "w_deposit_fails =
     \<lparr>log = [], server = [answer tx_withdrawal, refusal 404 ''Account not found'']\<rparr>"

text \<open>A provider answer that quotes BTC and not ETH.\<close>

definition rates_btc_only :: jsval where
  "rates_btc_only = Object [(''bitcoin'', Object [(''kzt'', Number (Fin 25000001))])]"

definition w_rates_partial :: "fetch_result list world" where
  "w_rates_partial = \<lparr>log = [], server = [answer rates_btc_only]\<rparr>"

text \<open>
  The wallet screen of user 7 as first mounted, the account the backend creates for
  them, and backends that answer the requests of \<^verbatim>\<open>loadData\<close> in turn.
\<close>

definition user7 :: UserData where
  "user7 = \<lparr>uid = Fin 7, name = ''Aigerim'', surname = ''K'', email = ''a@example.kz''\<rparr>"

definition screen0 :: screen where
  "screen0 =
     \<lparr>user = Some user7, account = Null, transactions = Array [], loading = True,
      refreshing = False, modalType = None, processing = False, amount = [],
      toAccountId = [], description = [], alerts = []\<rparr>"

definition new_account :: jsval where
  "new_account =
     Object [(''id'', Number (Fin 31)), (''user_id'', Number (Fin 7)),
             (''account_type'', String [Lit ''checking'']), (''balance'', String [Lit ''0.00'']),
             (''currency'', String [Lit ''KZT'']), (''status'', String [Lit ''active''])]"

definition w_first_load :: "fetch_result list world" where
  "w_first_load = \<lparr>log = [], server = [answer (Array []), answer new_account, answer (Array [])]\<rparr>"

definition w_transactions_fail :: "fetch_result list world" where
  "w_transactions_fail = \<lparr>log = [], server = [answer (Array []), answer new_account, Rejected]\<rparr>"

definition w_has_account :: "fetch_result list world" where
  "w_has_account = \<lparr>log = [], server = [answer (Array [new_account]), answer (Array [])]\<rparr>"

text \<open>The deposit form of that screen, submitted with an amount that is no number.\<close>

definition screen_bad_amount :: screen where
  "screen_bad_amount =
     screen0\<lparr>account := new_account, loading := False, modalType := Some ModalDeposit,
             amount := ''abc''\<rparr>"

section \<open>Binary64 rounding\<close>

lemma pow2_powi: "pow2 e = 2 powi e"
  by (simp add: pow2_def power_int_def field_simps)

lemma pow2_pos: "0 < pow2 e"
  by (simp add: pow2_def)

lemma pow2_add: "pow2 (a + b) = pow2 a * pow2 b"
  by (simp add: pow2_powi power_int_add)

lemma pow2_mono: "a \<le> b \<Longrightarrow> pow2 a \<le> pow2 b"
  by (simp add: pow2_powi power_int_increasing)

lemma pow2_53: "pow2 53 = 9007199254740992"
  by (simp add: pow2_def)

lemma pow2_1: "pow2 1 = 2"
  by (simp add: pow2_def)

lemma round64_finite:
  assumes "e \<le> 1022" and "m \<le> 9007199254740992"
  shows "\<not> pow2 1024 \<le> rat_of_int m * pow2 (e - 52)"
proof -
  have "rat_of_int m \<le> rat_of_int 9007199254740992"
    using assms(2) by (rule of_int_le_iff [THEN iffD2])
  then have "rat_of_int m \<le> pow2 53"
    by (simp only: pow2_53 of_int_numeral)
  then have "rat_of_int m * pow2 (e - 52) \<le> pow2 53 * pow2 (e - 52)"
    using pow2_pos [of "e - 52"] by (simp only: mult_le_cancel_right_pos)
  also have "\<dots> = pow2 (e + 1)"
    using pow2_add [of 53 "e - 52"] by (simp add: add.commute)
  also have "\<dots> \<le> pow2 1023"
    using assms(1) by (intro pow2_mono) simp
  also have "\<dots> < pow2 1023 * pow2 1"
    using pow2_pos [of 1023] by (simp add: pow2_1)
  also have "\<dots> = pow2 1024"
    using pow2_add [of 1023 1] by simp
  finally show ?thesis by simp
qed

lemma round64_eval:
  assumes "x \<noteq> 0" "ilog2 \<bar>x\<bar> = e" "- 1022 \<le> e" "e \<le> 1022"
    and "round_half_even (\<bar>x\<bar> / pow2 (e - 52)) = m"
    and "m \<le> 9007199254740992"
  shows "round64 x = Fin (sgn x * (rat_of_int m * pow2 (e - 52)))"
  using assms(1,2,3,5) round64_finite [OF assms(4,6)]
  by (simp add: round64_def Let_def max_def)

text \<open>
  The model of binary64 rounding does what it should: \<open>ilog2\<close> finds the binade, and a
  finite result of \<open>round64\<close> is a multiple of the spacing there, at most half a spacing
  away from the exact value.
\<close>

lemma ilog2_bounds:
  assumes "0 < x"
  shows "pow2 (ilog2 x) \<le> x \<and> x < pow2 (ilog2 x + 1)"
proof (cases "1 \<le> x")
  case True
  define n where "n = \<lfloor>x\<rfloor>"
  define b where "b = bitlen n"
  have n: "1 \<le> n" "rat_of_int n \<le> x" "x < rat_of_int n + 1"
    using True unfolding n_def by linarith+
  then have bb: "2 ^ nat (b - 1) \<le> n" "n < 2 ^ nat b"
    using bitlen_bounds [of n] by (simp_all add: b_def)
  have "0 \<le> b"
    using bitlen_nonneg [of n] by (simp add: b_def)
  moreover have "b \<noteq> 0"
    using n(1) bb(2) by auto
  ultimately have b1: "1 \<le> b"
    by simp
  have "rat_of_int (2 ^ nat (b - 1)) \<le> rat_of_int n"
    using bb(1) by (simp only: of_int_le_iff)
  then have "(2::rat) ^ nat (b - 1) \<le> rat_of_int n"
    by (simp only: of_int_power of_int_numeral)
  with n(2) have "(2::rat) ^ nat (b - 1) \<le> x"
    by linarith
  then have lo: "pow2 (b - 1) \<le> x"
    using b1 by (simp add: pow2_def)
  have "n + 1 \<le> 2 ^ nat b"
    using bb(2) by simp
  then have "rat_of_int (n + 1) \<le> rat_of_int (2 ^ nat b)"
    by (simp only: of_int_le_iff)
  then have "rat_of_int n + 1 \<le> (2::rat) ^ nat b"
    by (simp only: of_int_power of_int_numeral of_int_add of_int_1)
  with n(3) have "x < (2::rat) ^ nat b"
    by linarith
  then have hi: "x < pow2 b"
    using b1 by (simp add: pow2_def)
  from True lo hi show ?thesis
    by (simp add: ilog2_def n_def b_def)
next
  case False
  define m where "m = \<lceil>1 / x\<rceil>"
  define c where "c = bitlen (m - 1)"
  have y: "1 < 1 / x"
    using assms False by (simp add: field_simps)
  then have m: "2 \<le> m" "1 / x \<le> rat_of_int m" "rat_of_int m - 1 < 1 / x"
    unfolding m_def by linarith+
  then have cb: "2 ^ nat (c - 1) \<le> m - 1" "m - 1 < 2 ^ nat c"
    using bitlen_bounds [of "m - 1"] by (simp_all add: c_def)
  have "0 \<le> c"
    using bitlen_nonneg [of "m - 1"] by (simp add: c_def)
  moreover have "c \<noteq> 0"
    using m(1) cb(2) by auto
  ultimately have c1: "1 \<le> c"
    by simp
  have "m \<le> 2 ^ nat c"
    using cb(2) by simp
  then have "rat_of_int m \<le> rat_of_int (2 ^ nat c)"
    by (simp only: of_int_le_iff)
  then have "rat_of_int m \<le> (2::rat) ^ nat c"
    by (simp only: of_int_power of_int_numeral)
  with m(2) have "1 / x \<le> (2::rat) ^ nat c"
    by linarith
  then have "1 \<le> 2 ^ nat c * x"
    using assms by (simp add: field_simps)
  then have lo: "pow2 (- c) \<le> x"
    using c1 by (simp add: pow2_def field_simps)
  have "rat_of_int (2 ^ nat (c - 1)) \<le> rat_of_int (m - 1)"
    using cb(1) by (simp only: of_int_le_iff)
  then have "(2::rat) ^ nat (c - 1) \<le> rat_of_int m - 1"
    by (simp only: of_int_power of_int_numeral of_int_diff of_int_1)
  then have "(2::rat) ^ nat (c - 1) < 1 / x"
    using m(3) by linarith
  then have "2 ^ nat (c - 1) * x < 1"
    using assms by (simp add: field_simps)
  then have hi: "x < pow2 (- c + 1)"
    using c1 False by (auto simp: pow2_def field_simps)
  from False lo hi show ?thesis
    by (simp add: ilog2_def m_def c_def)
qed

lemma round_half_even_close: "\<bar>rat_of_int (round_half_even z) - z\<bar> \<le> 1 / 2"
proof -
  have "rat_of_int \<lfloor>z\<rfloor> \<le> z" and "z < rat_of_int \<lfloor>z\<rfloor> + 1"
    by linarith+
  then show ?thesis
    by (auto simp: round_half_even_def Let_def abs_le_iff)
qed

lemma round64_nearest:
  assumes "x \<noteq> 0" and "round64 x = Fin y"
  defines "u \<equiv> pow2 (max (ilog2 \<bar>x\<bar>) (- 1022) - 52)"
  shows "\<exists>m. y = rat_of_int m * u" and "\<bar>y - x\<bar> \<le> u / 2"
proof -
  define r where "r = round_half_even (\<bar>x\<bar> / u)"
  have u: "0 < u"
    by (simp add: u_def pow2_pos)
  from assms(1,2) have y: "y = sgn x * (rat_of_int r * u)"
    by (auto simp: round64_def Let_def r_def u_def split: if_splits)
  then have "y = rat_of_int (if 0 < x then r else - r) * u"
    using assms(1) by (simp add: sgn_if)
  then show "\<exists>m. y = rat_of_int m * u" ..
  have "\<bar>rat_of_int r - \<bar>x\<bar> / u\<bar> \<le> 1 / 2"
    unfolding r_def by (rule round_half_even_close)
  then have "\<bar>rat_of_int r - \<bar>x\<bar> / u\<bar> * u \<le> 1 / 2 * u"
    using u by (simp only: mult_le_cancel_right_pos)
  moreover have "\<bar>rat_of_int r - \<bar>x\<bar> / u\<bar> * u = \<bar>rat_of_int r * u - \<bar>x\<bar>\<bar>"
  proof -
    have "(rat_of_int r - \<bar>x\<bar> / u) * u = rat_of_int r * u - \<bar>x\<bar>"
      using u by (simp add: field_simps)
    then have "\<bar>rat_of_int r * u - \<bar>x\<bar>\<bar> = \<bar>rat_of_int r - \<bar>x\<bar> / u\<bar> * \<bar>u\<bar>"
      by (simp only: flip: abs_mult)
    with u show ?thesis by simp
  qed
  ultimately have "\<bar>rat_of_int r * u - \<bar>x\<bar>\<bar> \<le> u / 2"
    by simp
  moreover have "\<bar>y - x\<bar> = \<bar>rat_of_int r * u - \<bar>x\<bar>\<bar>"
  proof (cases "0 < x")
    case True
    with y show ?thesis by simp
  next
    case False
    with assms(1) y have "y - x = - (rat_of_int r * u - \<bar>x\<bar>)"
      by (simp add: sgn_if)
    then show ?thesis by (simp only: abs_minus)
  qed
  ultimately show "\<bar>y - x\<bar> \<le> u / 2"
    by simp
qed

lemma round_half_even_nonneg: "0 \<le> x \<Longrightarrow> 0 \<le> round_half_even x"
  by (simp add: round_half_even_def Let_def)

lemma round64_nonneg:
  assumes "0 \<le> v" and "round64 v = Fin x"
  shows "0 \<le> x"
proof (cases "v = 0")
  case True
  with assms(2) show ?thesis by (simp add: round64_def)
next
  case False
  define e where "e = max (ilog2 \<bar>v\<bar>) (- 1022)"
  have "0 \<le> rat_of_int (round_half_even (\<bar>v\<bar> / pow2 (e - 52))) * pow2 (e - 52)"
    using pow2_pos [of "e - 52"] by (simp add: round_half_even_nonneg)
  with assms False show ?thesis
    by (auto simp: round64_def Let_def e_def split: if_splits)
qed

lemma toFixed_2_nonneg:
  "0 \<le> x \<Longrightarrow> x < 10 ^ 21 \<Longrightarrow> toFixed (Fin x) 2 = Decimal \<lfloor>x * 100 + 1 / 2\<rfloor> 2"
  by (simp add: toFixed_def)

lemma half_up_close: "\<bar>rat_of_int \<lfloor>x * 100 + 1 / 2\<rfloor> / 100 - x\<bar> \<le> 1 / 200"
proof -
  define n where "n = rat_of_int \<lfloor>x * 100 + 1 / 2\<rfloor>"
  have "n \<le> x * 100 + 1 / 2" and "x * 100 + 1 / 2 < n + 1"
    unfolding n_def by linarith+
  then have "\<bar>n / 100 - x\<bar> \<le> 1 / 200"
    by linarith
  then show ?thesis by (simp only: n_def)
qed

text \<open>The roundings that the concrete runs need.\<close>

lemma round64_a: "round64 (25000001 / 8) = Fin (25000001 / 8)"
proof -
  have "round64 (25000001 / 8) =
      Fin (sgn (25000001 / 8) * (rat_of_int 6710886668435456 * pow2 (21 - 52)))"
    by (rule round64_eval; code_simp)
  then show ?thesis by (simp add: pow2_def)
qed

lemma round64_b: "round64 (312500013 / 100) = Fin (3355443339586437 / 1073741824)"
proof -
  have "round64 (312500013 / 100) =
      Fin (sgn (312500013 / 100) * (rat_of_int 6710886679172874 * pow2 (21 - 52)))"
    by (rule round64_eval; code_simp)
  then show ?thesis by (simp add: pow2_def)
qed

lemma round64_c: "round64 (312500012 / 100) = Fin (3355443328849019 / 1073741824)"
proof -
  have "round64 (312500012 / 100) =
      Fin (sgn (312500012 / 100) * (rat_of_int 6710886657698038 * pow2 (21 - 52)))"
    by (rule round64_eval; code_simp)
  then show ?thesis by (simp add: pow2_def)
qed

lemma spec_tie: "spec_fiat_amount (1 / 8) 25000001 = 312500012 / 100"
  by code_simp

lemma kzt_tie: "js_mul (Fin (1 / 8)) (Fin 25000001) = Fin (25000001 / 8)"
  using round64_a by simp

lemma credited_tie: "js_Number (toFixed (Fin (25000001 / 8)) 2) = Fin (3355443339586437 / 1073741824)"
  using round64_b by (simp add: js_Number_def toFixed_def)

section \<open>Requests and the log\<close>

lemma fetch_log: "fetch net req w = (r, w') \<Longrightarrow> log w' = log w @ [req]"
  by (auto simp: fetch_def split: prod.splits)

lemma api_call_log: "api_call net req fb w = (r, w') \<Longrightarrow> log w' = log w @ [req]"
  by (auto simp: api_call_def
      split: prod.splits fetch_result.splits option.splits if_splits jsval.splits
      dest: fetch_log)

lemma api_call_log_snd: "log (snd (api_call net req fb w)) = log w @ [req]"
  using api_call_log [of net req fb w] by (cases "api_call net req fb w") simp

lemma api_call_last: "last (log (snd (api_call net req fb w))) = req"
  by (simp add: api_call_log_snd)

lemma createWithdrawal_log:
  "createWithdrawal net u (userId p) (withdrawal_data p) w = (r, w')
    \<Longrightarrow> log w' = log w @ [withdrawal_request u p]"
  unfolding createWithdrawal_def withdrawal_request_def by (rule api_call_log)

lemma createDeposit_log:
  "createDeposit net u (userId p) (deposit_data p) w = (r, w')
    \<Longrightarrow> log w' = log w @ [deposit_request u p]"
  unfolding createDeposit_def deposit_request_def by (rule api_call_log)

lemma convert_success:
  assumes "convertCryptoToKZT net u p w = (Inr c, w')"
  obtains w1 where
    "\<not> js_le (amountCrypto p) (Fin 0)"
    "createWithdrawal net u (userId p) (withdrawal_data p) w = (Inr (withdrawal c), w1)"
    "createDeposit net u (userId p) (deposit_data p) w1 = (Inr (deposit c), w')"
    "kztAmount c = js_mul (amountCrypto p) (rateKZTPerCrypto p)"
    "log w' = log w @ [withdrawal_request u p, deposit_request u p]"
proof -
  from assms have pos: "\<not> js_le (amountCrypto p) (Fin 0)"
    by (auto simp: convertCryptoToKZT_def split: if_splits)
  obtain r1 w1 where c1: "createWithdrawal net u (userId p) (withdrawal_data p) w = (r1, w1)"
    by (cases "createWithdrawal net u (userId p) (withdrawal_data p) w")
  obtain r2 w2 where c2: "createDeposit net u (userId p) (deposit_data p) w1 = (r2, w2)"
    by (cases "createDeposit net u (userId p) (deposit_data p) w1")
  from assms pos c1 c2 have "r1 = Inr (withdrawal c)" "r2 = Inr (deposit c)" "w2 = w'"
    "kztAmount c = js_mul (amountCrypto p) (rateKZTPerCrypto p)"
    by (auto simp: convertCryptoToKZT_def split: sum.splits)
  moreover from c1 c2 have "log w2 = log w @ [withdrawal_request u p, deposit_request u p]"
    by (simp add: createWithdrawal_log createDeposit_log)
  ultimately show ?thesis using that pos c1 c2 by simp
qed

section \<open>Evaluating the concrete runs\<close>

lemma withdrawal_tie:
  "createWithdrawal scripted example_url (userId p_tie) (withdrawal_data p_tie) w_both_succeed
     = (Inr tx_withdrawal, \<lparr>log = [withdrawal_request example_url p_tie], server = [answer tx_deposit]\<rparr>)"
  by (simp add: createWithdrawal_def api_call_def fetch_def w_both_succeed_def answer_def
      withdrawal_request_def tx_withdrawal_def)

lemma deposit_tie:
  "createDeposit scripted example_url (userId p_tie) (deposit_data p_tie)
      \<lparr>log = [withdrawal_request example_url p_tie], server = [answer tx_deposit]\<rparr>
     = (Inr tx_deposit,
        \<lparr>log = [withdrawal_request example_url p_tie, deposit_request example_url p_tie], server = []\<rparr>)"
  by (simp add: createDeposit_def api_call_def fetch_def answer_def deposit_request_def tx_deposit_def)

lemma positive_tie: "\<not> js_le (amountCrypto p_tie) (Fin 0)"
  by (simp add: p_tie_def)

lemma convert_tie:
  "convertCryptoToKZT scripted example_url p_tie w_both_succeed
     = (Inr \<lparr>withdrawal = tx_withdrawal, deposit = tx_deposit, kztAmount = Fin (25000001 / 8)\<rparr>,
        \<lparr>log = [withdrawal_request example_url p_tie, deposit_request example_url p_tie], server = []\<rparr>)"
  using kzt_tie by (simp add: convertCryptoToKZT_def positive_tie withdrawal_tie deposit_tie) (simp add: p_tie_def)

lemma deposit_refused:
  "createDeposit scripted example_url (userId p_tie) (deposit_data p_tie)
      \<lparr>log = [withdrawal_request example_url p_tie], server = [refusal 404 ''Account not found'']\<rparr>
     = (Inl (Error [Lit ''Account not found'']),
        \<lparr>log = [withdrawal_request example_url p_tie, deposit_request example_url p_tie], server = []\<rparr>)"
  by (simp add: createDeposit_def api_call_def fetch_def refusal_def deposit_request_def)

lemma withdrawal_before_refusal:
  "createWithdrawal scripted example_url (userId p_tie) (withdrawal_data p_tie) w_deposit_fails
     = (Inr tx_withdrawal,
        \<lparr>log = [withdrawal_request example_url p_tie], server = [refusal 404 ''Account not found'']\<rparr>)"
  by (simp add: createWithdrawal_def api_call_def fetch_def w_deposit_fails_def answer_def
      withdrawal_request_def tx_withdrawal_def)

lemma stringify_fields_map_of:
  "map_of kvs k = Some v \<Longrightarrow> JSON_stringify v = Some j \<Longrightarrow> map_of (stringify_fields kvs) k = Some j"
  by (induction kvs) (auto split: option.splits if_splits)

lemma request_field_withdrawal:
  "request_field (withdrawal_request u p) ''account_id'' = json_number (fromAccountId p)"
  "request_field (withdrawal_request u p) ''amount'' = json_number (amountCrypto p)"
  by (simp_all add: request_field_def withdrawal_request_def withdrawal_data_def js_get_opt_def)

lemma request_field_deposit:
  "request_field (deposit_request u p) ''account_id'' = json_number (toKZTAccountId p)"
  "request_field (deposit_request u p) ''amount'' =
     json_number (js_Number (toFixed (js_mul (amountCrypto p) (rateKZTPerCrypto p)) 2))"
  by (simp_all add: request_field_def deposit_request_def deposit_data_def js_get_opt_def)

section \<open>Claims about the conversion\<close>

text \<open>
  Claim C6. In every conversion the debit is committed before the credit is attempted:
  the requests a call of \<^verbatim>\<open>convertCryptoToKZT\<close> adds to the log are none (the amount
  was rejected), or the withdrawal request alone (it failed), or the withdrawal request
  followed by the deposit request; the deposit request is there exactly when the
  withdrawal call has returned a transaction, it never precedes the withdrawal request,
  and it reaches the backend in the state the withdrawal has left.
\<close>

theorem debit_before_credit:
  "log (snd (convertCryptoToKZT net u p w)) =
     log w @
       (if js_le (amountCrypto p) (Fin 0) then []
        else withdrawal_request u p #
          (case fst (createWithdrawal net u (userId p) (withdrawal_data p) w) of
             Inl e \<Rightarrow> []
           | Inr wd \<Rightarrow> [deposit_request u p]))
   \<and> snd (convertCryptoToKZT net u p w) =
       (if js_le (amountCrypto p) (Fin 0) then w
        else case createWithdrawal net u (userId p) (withdrawal_data p) w of
               (Inl e, w1) \<Rightarrow> w1
             | (Inr wd, w1) \<Rightarrow> snd (createDeposit net u (userId p) (deposit_data p) w1))"
  by (auto simp: convertCryptoToKZT_def split: prod.splits sum.splits
      dest!: createWithdrawal_log createDeposit_log)

text \<open>
  Claim C1, as stated, fails. In this run the withdrawal succeeds and the backend refuses
  the deposit: the call ends with the backend's error, which names no leg, after exactly
  two requests, and neither of them is a reversal deposit to the source account.
\<close>

theorem no_compensating_reversal:
  "convertCryptoToKZT scripted example_url p_tie w_deposit_fails
     = (Inl (Error [Lit ''Account not found'']),
        \<lparr>log = [withdrawal_request example_url p_tie, deposit_request example_url p_tie],
         server = []\<rparr>)
   \<and> fst (createWithdrawal scripted example_url (userId p_tie) (withdrawal_data p_tie) w_deposit_fails)
       = Inr tx_withdrawal
   \<and> \<not> is_reversal_of example_url p_tie (withdrawal_request example_url p_tie)
   \<and> \<not> is_reversal_of example_url p_tie (deposit_request example_url p_tie)"
proof -
  have "\<not> is_reversal_of example_url p_tie (withdrawal_request example_url p_tie)"
    by (simp add: is_reversal_of_def withdrawal_request_def)
  moreover have "\<not> is_reversal_of example_url p_tie (deposit_request example_url p_tie)"
    by (simp add: is_reversal_of_def request_field_deposit) (simp add: p_tie_def json_number_def)
  ultimately show ?thesis
    by (simp add: convertCryptoToKZT_def positive_tie withdrawal_before_refusal deposit_refused)
qed

text \<open>
  Claim C1, amended. When the withdrawal leg succeeds and the deposit leg fails,
  \<^verbatim>\<open>convertCryptoToKZT\<close> issues no request after the failed deposit request, so no
  compensating deposit, and fails with the very error of the deposit call; it returns
  with the source debit standing.
\<close>

theorem failed_deposit_is_rethrown:
  assumes "\<not> js_le (amountCrypto p) (Fin 0)"
    and "createWithdrawal net u (userId p) (withdrawal_data p) w = (Inr wd, w1)"
    and "createDeposit net u (userId p) (deposit_data p) w1 = (Inl e, w2)"
  shows "convertCryptoToKZT net u p w = (Inl e, w2)
    \<and> log w2 = log w @ [withdrawal_request u p, deposit_request u p]"
  using assms createWithdrawal_log [OF assms(2)] createDeposit_log [OF assms(3)]
  by (simp add: convertCryptoToKZT_def)

theorem failed_deposit_is_rethrown_witness:
  "\<not> js_le (amountCrypto p_tie) (Fin 0)
   \<and> convertCryptoToKZT scripted example_url p_tie w_deposit_fails
       = (Inl (Error [Lit ''Account not found'']),
          \<lparr>log = [withdrawal_request example_url p_tie, deposit_request example_url p_tie],
           server = []\<rparr>)"
  using failed_deposit_is_rethrown [OF positive_tie withdrawal_before_refusal deposit_refused]
    positive_tie
  by simp

text \<open>
  Claim C2, as stated, fails. Converting 0.125 BTC at 25,000,001 KZT succeeds and the
  deposit request carries 3,125,000.13 (as the nearest binary64 value), while the product
  rounded half-even to 2 decimal places is 3,125,000.12.
\<close>

theorem credit_is_not_half_even:
  "fst (convertCryptoToKZT scripted example_url p_tie w_both_succeed)
     = Inr \<lparr>withdrawal = tx_withdrawal, deposit = tx_deposit, kztAmount = Fin (25000001 / 8)\<rparr>
   \<and> request_field (last (log (snd (convertCryptoToKZT scripted example_url p_tie w_both_succeed))))
        ''amount'' = Number (Fin (3355443339586437 / 1073741824))
   \<and> spec_fiat_amount (1 / 8) 25000001 = 312500012 / 100
   \<and> round64 (spec_fiat_amount (1 / 8) 25000001) = Fin (3355443328849019 / 1073741824)
   \<and> request_field (last (log (snd (convertCryptoToKZT scripted example_url p_tie w_both_succeed))))
        ''amount'' \<noteq> json_number (round64 (spec_fiat_amount (1 / 8) 25000001))"
  using kzt_tie credited_tie round64_c
  by (simp add: convert_tie request_field_deposit spec_tie) (simp add: p_tie_def json_number_def)

text \<open>
  Claim C2, amended. For a conversion that succeeds with positive amount and rate, whose
  binary64 product \<open>x\<close> is finite and below \<open>10 ^ 21\<close>, the amount of the deposit request is
  \<open>x\<close> rounded to 2 decimal places with ties going up (to the larger multiple of 0.01),
  read back as a binary64 number; that decimal is within 0.005 of \<open>x\<close>.
\<close>

theorem credit_is_half_up:
  assumes "convertCryptoToKZT net u p w = (Inr c, w')"
    and "amountCrypto p = Fin a" and "rateKZTPerCrypto p = Fin r"
    and "0 < a" and "0 < r"
    and "js_mul (Fin a) (Fin r) = Fin x" and "x < 10 ^ 21"
  shows "request_field (last (log w')) ''amount''
           = json_number (round64 (rat_of_int \<lfloor>x * 100 + 1 / 2\<rfloor> / 100))
    \<and> \<bar>rat_of_int \<lfloor>x * 100 + 1 / 2\<rfloor> / 100 - x\<bar> \<le> 1 / 200"
proof -
  from assms(1) have "last (log w') = deposit_request u p"
    by (rule convert_success) simp
  moreover have "0 \<le> x"
    using assms(4,5,6) round64_nonneg [of "a * r" x] by simp
  ultimately have "request_field (last (log w')) ''amount''
      = json_number (round64 (rat_of_int \<lfloor>x * 100 + 1 / 2\<rfloor> / 100))"
    using assms(2,3,6,7)
    by (simp add: request_field_deposit toFixed_2_nonneg js_Number_def)
  then show ?thesis
    using half_up_close [of x] by (rule conjI)
qed

theorem credit_is_half_up_witness:
  "request_field (last (log (snd (convertCryptoToKZT scripted example_url p_tie w_both_succeed))))
      ''amount'' = Number (Fin (3355443339586437 / 1073741824))
   \<and> \<bar>rat_of_int \<lfloor>25000001 / 8 * 100 + 1 / 2\<rfloor> / 100 - 25000001 / 8\<bar> \<le> (1 / 200 :: rat)"
proof -
  have "amountCrypto p_tie = Fin (1 / 8)" "rateKZTPerCrypto p_tie = Fin 25000001"
    by (simp_all add: p_tie_def)
  from credit_is_half_up [OF convert_tie this _ _ kzt_tie] round64_b
  show ?thesis by (simp add: convert_tie json_number_def)
qed

text \<open>
  Claim C9. The \<^verbatim>\<open>kztAmount\<close> a successful conversion returns is the unrounded product
  of amount and rate, the amount of its deposit request is that product after
  \<^verbatim>\<open>Number(kztAmount.toFixed(2))\<close>, and there is a conversion for which the two differ.
\<close>

theorem returned_amount_is_unrounded:
  "(convertCryptoToKZT net u p w = (Inr c, w') \<longrightarrow>
      kztAmount c = js_mul (amountCrypto p) (rateKZTPerCrypto p)
      \<and> request_field (last (log w')) ''amount''
          = json_number (js_Number (toFixed (kztAmount c) 2)))
   \<and> (\<exists>c0 w0. convertCryptoToKZT scripted example_url p_tie w_both_succeed = (Inr c0, w0)
        \<and> json_number (kztAmount c0) \<noteq> request_field (last (log w0)) ''amount'')"
proof (intro conjI impI)
  assume run: "convertCryptoToKZT net u p w = (Inr c, w')"
  then show "kztAmount c = js_mul (amountCrypto p) (rateKZTPerCrypto p)"
    by (rule convert_success)
  from run show "request_field (last (log w')) ''amount''
      = json_number (js_Number (toFixed (kztAmount c) 2))"
    by (rule convert_success) (simp add: request_field_deposit)
next
  have "json_number (Fin (25000001 / 8))
      \<noteq> request_field (deposit_request example_url p_tie) ''amount''"
    using kzt_tie credited_tie
    by (simp add: request_field_deposit) (simp add: p_tie_def json_number_def)
  then show "\<exists>c0 w0. convertCryptoToKZT scripted example_url p_tie w_both_succeed = (Inr c0, w0)
      \<and> json_number (kztAmount c0) \<noteq> request_field (last (log w0)) ''amount''"
    by (simp add: convert_tie)
qed

theorem returned_amount_is_unrounded_witness:
  "kztAmount \<lparr>withdrawal = tx_withdrawal, deposit = tx_deposit, kztAmount = Fin (25000001 / 8)\<rparr>
     = js_mul (amountCrypto p_tie) (rateKZTPerCrypto p_tie)
   \<and> request_field (deposit_request example_url p_tie) ''amount''
       = json_number (js_Number (toFixed (Fin (25000001 / 8)) 2))"
  using returned_amount_is_unrounded [THEN conjunct1, rule_format, OF convert_tie]
  by simp

text \<open>
  Claim C3, as stated, fails. This conversion succeeds with two requests whose bodies
  hold no value in common, so no identifier links them; each body has the four fields
  of a plain deposit or withdrawal request and nothing else.
\<close>

theorem legs_share_no_identifier:
  "convertCryptoToKZT scripted example_url p_tie w_both_succeed
     = (Inr \<lparr>withdrawal = tx_withdrawal, deposit = tx_deposit, kztAmount = Fin (25000001 / 8)\<rparr>,
        \<lparr>log = [withdrawal_request example_url p_tie, deposit_request example_url p_tie],
         server = []\<rparr>)
   \<and> shared_fields (withdrawal_request example_url p_tie) (deposit_request example_url p_tie) = []
   \<and> body_keys (withdrawal_request example_url p_tie)
       = [''account_id'', ''amount'', ''currency'', ''description'']
   \<and> body_keys (deposit_request example_url p_tie)
       = [''account_id'', ''amount'', ''currency'', ''description'']"
proof -
  have "json_number (Fin (1 / 8)) \<noteq> json_number (js_Number (toFixed (Fin (25000001 / 8)) 2))"
    using credited_tie by (simp add: json_number_def)
  then have "shared_fields (withdrawal_request example_url p_tie)
      (deposit_request example_url p_tie) = []"
    using kzt_tie
    by (simp add: shared_fields_def withdrawal_request_def deposit_request_def
        withdrawal_data_def deposit_data_def p_tie_def) (simp add: json_number_def)
  then show ?thesis
    by (simp add: convert_tie)
      (simp add: body_keys_def withdrawal_request_def deposit_request_def
        withdrawal_data_def deposit_data_def)
qed

text \<open>
  Claim C3, amended. Every successful conversion issues exactly two requests, the
  withdrawal and then the deposit, each with exactly the fields \<^verbatim>\<open>account_id\<close>,
  \<^verbatim>\<open>amount\<close>, \<^verbatim>\<open>currency\<close> and \<^verbatim>\<open>description\<close>, hence no linking identifier, and returns
  the two transactions as the backend answered them.
\<close>

theorem conversion_is_two_requests:
  assumes "convertCryptoToKZT net u p w = (Inr c, w')"
  shows "log w' = log w @ [withdrawal_request u p, deposit_request u p]
    \<and> body_keys (withdrawal_request u p) = [''account_id'', ''amount'', ''currency'', ''description'']
    \<and> body_keys (deposit_request u p) = [''account_id'', ''amount'', ''currency'', ''description'']
    \<and> fst (createWithdrawal net u (userId p) (withdrawal_data p) w) = Inr (withdrawal c)
    \<and> createDeposit net u (userId p) (deposit_data p)
          (snd (createWithdrawal net u (userId p) (withdrawal_data p) w)) = (Inr (deposit c), w')"
proof -
  have "body_keys (withdrawal_request u p) = [''account_id'', ''amount'', ''currency'', ''description'']"
    and "body_keys (deposit_request u p) = [''account_id'', ''amount'', ''currency'', ''description'']"
    by (simp_all add: body_keys_def withdrawal_request_def deposit_request_def
        withdrawal_data_def deposit_data_def)
  with assms show ?thesis
    by (elim convert_success) simp
qed

theorem conversion_is_two_requests_witness:
  "log (snd (convertCryptoToKZT scripted example_url p_tie w_both_succeed))
     = [withdrawal_request example_url p_tie, deposit_request example_url p_tie]
   \<and> fst (createWithdrawal scripted example_url (userId p_tie) (withdrawal_data p_tie) w_both_succeed)
       = Inr tx_withdrawal"
proof -
  have "log w_both_succeed = []"
    by (simp add: w_both_succeed_def)
  with conversion_is_two_requests [OF convert_tie] show ?thesis
    by (simp add: convert_tie)
qed

section \<open>Claims about the requests\<close>

text \<open>
  Claim C7, as stated, fails. Both requests of this conversion carry their amount as a
  JSON number, not as a string.
\<close>

theorem amount_is_sent_as_number:
  "log (snd (convertCryptoToKZT scripted example_url p_tie w_both_succeed))
     = [withdrawal_request example_url p_tie, deposit_request example_url p_tie]
   \<and> request_field (withdrawal_request example_url p_tie) ''amount'' = Number (Fin (1 / 8))
   \<and> request_field (deposit_request example_url p_tie) ''amount''
       = Number (Fin (3355443339586437 / 1073741824))
   \<and> \<not> is_string (request_field (withdrawal_request example_url p_tie) ''amount'')
   \<and> \<not> is_string (request_field (deposit_request example_url p_tie) ''amount'')"
  using kzt_tie credited_tie
  by (simp add: convert_tie request_field_withdrawal request_field_deposit)
    (simp add: p_tie_def json_number_def is_string_def)

lemma sent_amount:
  assumes "map_of kvs ''amount'' = Some (Number n)"
  shows "request_field
      (last (log (snd (api_call net
        \<lparr>http_method = m, url = a, headers = h, body = Some (Object (stringify_fields kvs))\<rparr>
        fb w))))
      ''amount'' = json_number n"
  using stringify_fields_map_of [OF assms, of "json_number n"]
  by (simp add: api_call_last request_field_def js_get_opt_def)

lemma json_number_not_string: "\<not> is_string (json_number n)"
  by (cases n) (simp_all add: json_number_def is_string_def)

text \<open>
  Claim C7, amended. A deposit, withdrawal or transfer request whose \<^verbatim>\<open>amount\<close> is the
  number \<open>n\<close>, as the request types declare it, transmits the amount as a JSON number
  holding the binary64 value of \<open>n\<close> (\<^verbatim>\<open>null\<close> when \<open>n\<close> is not finite), never as a string.
\<close>

theorem amount_is_a_json_number:
  assumes "map_of kvs ''amount'' = Some (Number n)"
  shows "request_field (last (log (snd (createDeposit net u user_id (Object kvs) w)))) ''amount''
      = json_number n
    \<and> request_field (last (log (snd (createWithdrawal net u user_id (Object kvs) w)))) ''amount''
      = json_number n
    \<and> request_field (last (log (snd (createTransfer net u user_id (Object kvs) w)))) ''amount''
      = json_number n
    \<and> \<not> is_string (json_number n)
    \<and> request_field (withdrawal_request u p) ''amount'' = json_number (amountCrypto p)
    \<and> request_field (deposit_request u p) ''amount''
      = json_number (js_Number (toFixed (js_mul (amountCrypto p) (rateKZTPerCrypto p)) 2))"
  using assms
  by (simp add: createDeposit_def createWithdrawal_def createTransfer_def sent_amount
      json_number_not_string request_field_withdrawal request_field_deposit)

theorem amount_is_a_json_number_witness:
  "request_field (last (log (snd (createDeposit scripted example_url (Fin 7)
       (Object [(''account_id'', Number (Fin 2)), (''amount'', Number (Fin 500)),
                (''currency'', String [Lit ''KZT''])]) w_both_succeed)))) ''amount''
     = Number (Fin 500)"
  using amount_is_a_json_number [of "[(''account_id'', Number (Fin 2)), (''amount'', Number (Fin 500)),
      (''currency'', String [Lit ''KZT''])]" "Fin 500" scripted example_url "Fin 7" w_both_succeed]
  by (simp add: json_number_def)

section \<open>Claims about the rates\<close>

lemma collect_rates_eq:
  "collect_rates data ss acc =
     (case find (\<lambda>s. quoted data s = None) ss of
        Some s \<Rightarrow> Inl (Error [Lit (''Rate for '' @ symbol_name s @ '' not available'')])
      | None \<Rightarrow> Inr (\<lambda>s. if s \<in> set ss then quoted data s else acc s))"
proof (induction ss arbitrary: acc)
  case Nil
  show ?case by simp
next
  case (Cons s ss)
  show ?case
  proof (cases "quoted data s")
    case None
    then show ?thesis
      by (auto simp: quoted_def split: jsval.splits)
  next
    case (Some price)
    then have "collect_rates data (s # ss) acc = collect_rates data ss (acc(s \<mapsto> price))"
      by (auto simp: quoted_def split: jsval.splits)
    also have "\<dots> =
       (case find (\<lambda>s. quoted data s = None) ss of
          Some s \<Rightarrow> Inl (Error [Lit (''Rate for '' @ symbol_name s @ '' not available'')])
        | None \<Rightarrow> Inr (\<lambda>t. if t \<in> set ss then quoted data t else (acc(s \<mapsto> price)) t))"
      by (rule Cons.IH)
    also have "(\<lambda>t. if t \<in> set ss then quoted data t else (acc(s \<mapsto> price)) t)
        = (\<lambda>t. if t \<in> set (s # ss) then quoted data t else acc t)"
      using Some by auto
    finally show ?thesis using Some by simp
  qed
qed

text \<open>
  Claim C4, as stated, fails. The provider quotes BTC and not ETH; asked for both,
  \<^verbatim>\<open>getCryptoRatesKZT\<close> fails as a whole and the BTC rate it had read is lost.
\<close>

theorem partial_rates_fail:
  "getCryptoRatesKZT scripted [BTC, ETH] w_rates_partial
     = (Inl (Error [Lit ''Rate for ETH not available'']),
        \<lparr>log = [rates_request [BTC, ETH]], server = []\<rparr>)
   \<and> quoted rates_btc_only BTC = Some (Fin 25000001)
   \<and> quoted rates_btc_only ETH = None"
  by (simp add: getCryptoRatesKZT_def fetch_def w_rates_partial_def answer_def rates_request_def
      rates_btc_only_def quoted_def js_get_opt_def)

text \<open>
  Claim C4, amended. On a successful provider response, \<^verbatim>\<open>getCryptoRatesKZT\<close> returns
  the rates only when the response holds a numeric rate for every requested symbol, and
  then for exactly those symbols; as soon as one requested symbol has none, the whole
  batch fails with the error naming the first such symbol in request order, and no rate
  and no failure list is returned.
\<close>

theorem rates_all_or_nothing:
  assumes "fetch net (rates_request symbols) w = (Response res, w')"
    and "ok res" and "payload res = Some data"
  shows "getCryptoRatesKZT net symbols w =
     (case find (\<lambda>s. quoted data s = None) symbols of
        Some s \<Rightarrow> Inl (Error [Lit (''Rate for '' @ symbol_name s @ '' not available'')])
      | None \<Rightarrow> Inr (\<lambda>s. if s \<in> set symbols then quoted data s else None), w')"
  using assms unfolding getCryptoRatesKZT_def rates_request_def
  by (simp add: collect_rates_eq)

theorem rates_all_or_nothing_witness:
  "getCryptoRatesKZT scripted [BTC, ETH] w_rates_partial
     = (Inl (Error [Lit ''Rate for ETH not available'']),
        \<lparr>log = [rates_request [BTC, ETH]], server = []\<rparr>)
   \<and> getCryptoRatesKZT scripted [BTC] w_rates_partial
     = (Inr (\<lambda>s. if s \<in> set [BTC] then quoted rates_btc_only s else None),
        \<lparr>log = [rates_request [BTC]], server = []\<rparr>)"
proof -
  have f: "fetch scripted (rates_request ss) w_rates_partial
      = (Response \<lparr>ok = True, status = 200, payload = Some rates_btc_only\<rparr>,
         \<lparr>log = [rates_request ss], server = []\<rparr>)" for ss
    by (simp add: fetch_def w_rates_partial_def answer_def)
  have q: "quoted rates_btc_only BTC = Some (Fin 25000001)" "quoted rates_btc_only ETH = None"
    by (simp_all add: rates_btc_only_def quoted_def js_get_opt_def)
  from rates_all_or_nothing [OF f [of "[BTC, ETH]"]] rates_all_or_nothing [OF f [of "[BTC]"]] q
  show ?thesis by simp
qed

section \<open>Claims about the transaction list\<close>

text \<open>
  Claim C10. The request of \<^verbatim>\<open>getUserTransactions\<close> always carries \<^verbatim>\<open>skip\<close> and
  \<^verbatim>\<open>limit\<close>, 0 and 100 when the caller gives none; it carries \<^verbatim>\<open>account_id\<close> only for
  an account id that is given and is neither 0 nor NaN; with the account id 0 the call is
  the one without an account filter.
\<close>

theorem transaction_query:
  "log (snd (getUserTransactions net u user_id fs w))
     = log w @ [last (log (snd (getUserTransactions net u user_id fs w)))]
   \<and> map_of (query (last (log (snd (getUserTransactions net u user_id fs w))))) ''skip''
     = Some [NumStr (case Option.bind fs skip of None \<Rightarrow> Fin 0 | Some n \<Rightarrow> n)]
   \<and> map_of (query (last (log (snd (getUserTransactions net u user_id fs w))))) ''limit''
     = Some [NumStr (case Option.bind fs limit of None \<Rightarrow> Fin 100 | Some n \<Rightarrow> n)]
   \<and> map_of (query (last (log (snd (getUserTransactions net u user_id fs w))))) ''account_id''
     = (case Option.bind fs account_id of
          None \<Rightarrow> None
        | Some a \<Rightarrow> if a = Fin 0 \<or> a = NaN then None else Some [NumStr a])
   \<and> getUserTransactions net u user_id (Some (f\<lparr>account_id := Some (Fin 0)\<rparr>)) w
     = getUserTransactions net u user_id (Some (f\<lparr>account_id := None\<rparr>)) w"
proof -
  have "log (snd (getUserTransactions net u user_id fs w))
      = log w @ [last (log (snd (getUserTransactions net u user_id fs w)))]"
    by (simp add: getUserTransactions_def Let_def api_call_log_snd)
  then show ?thesis
    by (auto simp: getUserTransactions_def api_call_last query_def truthy_num_def Let_def
        split: option.splits)
qed

section \<open>Claims about the wallet screen\<close>

lemma parseFloat_abc: "parseFloat ''abc'' = NaN"
  by (simp add: parseFloat_def is_space_def is_digit_def Let_def)

lemma user_screen_bad_amount: "user screen_bad_amount = Some user7"
  "truthy (account screen_bad_amount)" "amount screen_bad_amount = ''abc''"
  by (simp_all add: screen_bad_amount_def screen0_def new_account_def)

text \<open>
  Claim C5. A conversion whose amount is at most 0 fails with the error
  \<^verbatim>\<open>Amount must be positive\<close> and leaves the world as it was: no request is sent. A form
  submission whose amount parses to NaN or to at most 0 sends no request either, and,
  where a user and an account are loaded, ends with the alert asking for a valid amount.
\<close>

theorem invalid_amount_sends_nothing:
  "(js_le (amountCrypto p) (Fin 0) \<longrightarrow>
      convertCryptoToKZT net u p w = (Inl (Error [Lit ''Amount must be positive'']), w))
   \<and> (isNaN (parseFloat (amount s)) \<or> js_le (parseFloat (amount s)) (Fin 0) \<longrightarrow>
        (\<exists>s'. handleTransaction net u web s w = Some (s', w))
        \<and> (user s \<noteq> None \<and> truthy (account s) \<longrightarrow>
             handleTransaction net u web s w
               = Some (s\<lparr>alerts := alerts s @
                            [show_alert web [Lit ''Please enter a valid amount'']
                               ''Invalid Amount'' [Lit ''Please enter a valid amount'']]\<rparr>, w)))"
  by (auto simp: convertCryptoToKZT_def handleTransaction_def Let_def split: option.splits)

theorem invalid_amount_sends_nothing_witness:
  "convertCryptoToKZT scripted example_url (p_tie\<lparr>amountCrypto := Fin 0\<rparr>) w_both_succeed
     = (Inl (Error [Lit ''Amount must be positive'']), w_both_succeed)
   \<and> handleTransaction scripted example_url True screen_bad_amount w_both_succeed
     = Some (screen_bad_amount\<lparr>alerts := [Alert None [Lit ''Please enter a valid amount'']]\<rparr>,
             w_both_succeed)"
proof -
  have "js_le (amountCrypto (p_tie\<lparr>amountCrypto := Fin 0\<rparr>)) (Fin 0)"
    by simp
  moreover have "isNaN (parseFloat (amount screen_bad_amount))"
    by (simp add: user_screen_bad_amount parseFloat_abc isNaN_def)
  moreover have "alerts screen_bad_amount = []"
    by (simp add: screen_bad_amount_def screen0_def)
  ultimately show ?thesis
    using invalid_amount_sends_nothing [of "p_tie\<lparr>amountCrypto := Fin 0\<rparr>" scripted example_url
        w_both_succeed screen_bad_amount True]
    by (simp add: user_screen_bad_amount show_alert_def)
qed

lemma getUserAccounts_log:
  "getUserAccounts net u i w = (r, w') \<Longrightarrow> log w' = log w @ [accounts_request u i]"
  unfolding getUserAccounts_def accounts_request_def by (rule api_call_log)

lemma createAccount_log:
  "createAccount net u (default_account i) w = (r, w')
    \<Longrightarrow> log w' = log w @ [create_account_request u i]"
  unfolding createAccount_def create_account_request_def by (rule api_call_log)

lemma getUserTransactions_log:
  "getUserTransactions net u i
      (Some \<lparr>account_id = None, transaction_type = None, skip = None, limit = Some (Fin 100)\<rparr>) w
     = (r, w')
    \<Longrightarrow> log w' = log w @ [transactions_request u i]"
  unfolding getUserTransactions_def transactions_request_def
  by (simp add: Let_def) (erule api_call_log)

lemma create_account_body:
  "body (create_account_request u i)
     = Some (Object [(''user_id'', json_number i), (''account_type'', String [Lit ''checking'']),
                     (''balance'', Number (Fin 0)), (''currency'', String [Lit ''KZT''])])"
  by (simp add: create_account_request_def default_account_def json_number_def)

text \<open>
  Claim C8, amended. When the account list comes back empty, \<^verbatim>\<open>loadData\<close> sends
  exactly one create request, for a \<^verbatim>\<open>checking\<close> account in KZT with balance 0 and no
  status, and, provided that request and the transaction request after it succeed, shows
  the account the backend answered with. When the list has an account, the requests are
  the account list and the transaction list only, so no account is created, and the
  first account is shown once the transactions are loaded.
\<close>

theorem lazy_account_creation:
  "(user s = Some usr \<and> truthy_num (uid usr)
      \<and> getUserAccounts net u (uid usr) w = (Inr (Array []), w1)
    \<longrightarrow> (\<exists>s' w'. loadData net u web s w = Some (s', w')
          \<and> log w' = log w @ accounts_request u (uid usr) # create_account_request u (uid usr) #
                (case fst (createAccount net u (default_account (uid usr)) w1) of
                   Inl e \<Rightarrow> []
                 | Inr acct \<Rightarrow> [transactions_request u (uid usr)])
          \<and> (\<forall>acct w2 txs w3.
                createAccount net u (default_account (uid usr)) w1 = (Inr acct, w2)
                \<and> getUserTransactions net u (uid usr)
                      (Some \<lparr>account_id = None, transaction_type = None, skip = None,
                             limit = Some (Fin 100)\<rparr>) w2 = (Inr txs, w3)
                \<and> txs \<noteq> Null \<and> txs \<noteq> Undefined
              \<longrightarrow> s' = s\<lparr>account := acct, transactions := txs, loading := False\<rparr> \<and> w' = w3))
        \<and> body (create_account_request u (uid usr))
            = Some (Object [(''user_id'', json_number (uid usr)),
                            (''account_type'', String [Lit ''checking'']),
                            (''balance'', Number (Fin 0)),
                            (''currency'', String [Lit ''KZT''])]))
   \<and> (user s = Some usr \<and> truthy_num (uid usr)
      \<and> getUserAccounts net u (uid usr) w = (Inr (Array (a # as)), w1)
    \<longrightarrow> (\<exists>s' w'. loadData net u web s w = Some (s', w')
          \<and> log w' = log w @ [accounts_request u (uid usr), transactions_request u (uid usr)]
          \<and> (\<forall>txs w2.
                getUserTransactions net u (uid usr)
                      (Some \<lparr>account_id = None, transaction_type = None, skip = None,
                             limit = Some (Fin 100)\<rparr>) w1 = (Inr txs, w2)
                \<and> txs \<noteq> Null \<and> txs \<noteq> Undefined
              \<longrightarrow> s' = s\<lparr>account := a, transactions := txs, loading := False\<rparr> \<and> w' = w2)))"
proof (intro conjI impI; elim conjE)
  assume us: "user s = Some usr" "truthy_num (uid usr)"
    and acc: "getUserAccounts net u (uid usr) w = (Inr (Array []), w1)"
  obtain r2 w2 where cre: "createAccount net u (default_account (uid usr)) w1 = (r2, w2)"
    by (cases "createAccount net u (default_account (uid usr)) w1")
  obtain r3 w3 where txs: "getUserTransactions net u (uid usr)
      (Some \<lparr>account_id = None, transaction_type = None, skip = None,
             limit = Some (Fin 100)\<rparr>) w2 = (r3, w3)"
    by (cases "getUserTransactions net u (uid usr)
      (Some \<lparr>account_id = None, transaction_type = None, skip = None,
             limit = Some (Fin 100)\<rparr>) w2")
  have l1: "log w1 = log w @ [accounts_request u (uid usr)]"
    using acc by (rule getUserAccounts_log)
  have l2: "log w2 = log w1 @ [create_account_request u (uid usr)]"
    using cre by (rule createAccount_log)
  have l3: "log w3 = log w2 @ [transactions_request u (uid usr)]"
    using txs by (rule getUserTransactions_log)
  show "\<exists>s' w'. loadData net u web s w = Some (s', w')
      \<and> log w' = log w @ accounts_request u (uid usr) # create_account_request u (uid usr) #
            (case fst (createAccount net u (default_account (uid usr)) w1) of
               Inl e \<Rightarrow> []
             | Inr acct \<Rightarrow> [transactions_request u (uid usr)])
      \<and> (\<forall>acct w2 txs w3.
            createAccount net u (default_account (uid usr)) w1 = (Inr acct, w2)
            \<and> getUserTransactions net u (uid usr)
                  (Some \<lparr>account_id = None, transaction_type = None, skip = None,
                         limit = Some (Fin 100)\<rparr>) w2 = (Inr txs, w3)
            \<and> txs \<noteq> Null \<and> txs \<noteq> Undefined
          \<longrightarrow> s' = s\<lparr>account := acct, transactions := txs, loading := False\<rparr> \<and> w' = w3)"
    using us acc cre txs l1 l2 l3
    by (cases r2; cases r3) (auto simp: loadData_def Let_def)
  show "body (create_account_request u (uid usr))
      = Some (Object [(''user_id'', json_number (uid usr)),
                      (''account_type'', String [Lit ''checking'']),
                      (''balance'', Number (Fin 0)),
                      (''currency'', String [Lit ''KZT''])])"
    by (rule create_account_body)
next
  assume us: "user s = Some usr" "truthy_num (uid usr)"
    and acc: "getUserAccounts net u (uid usr) w = (Inr (Array (a # as)), w1)"
  obtain r3 w3 where txs: "getUserTransactions net u (uid usr)
      (Some \<lparr>account_id = None, transaction_type = None, skip = None,
             limit = Some (Fin 100)\<rparr>) w1 = (r3, w3)"
    by (cases "getUserTransactions net u (uid usr)
      (Some \<lparr>account_id = None, transaction_type = None, skip = None,
             limit = Some (Fin 100)\<rparr>) w1")
  have l1: "log w1 = log w @ [accounts_request u (uid usr)]"
    using acc by (rule getUserAccounts_log)
  have l3: "log w3 = log w1 @ [transactions_request u (uid usr)]"
    using txs by (rule getUserTransactions_log)
  show "\<exists>s' w'. loadData net u web s w = Some (s', w')
      \<and> log w' = log w @ [accounts_request u (uid usr), transactions_request u (uid usr)]
      \<and> (\<forall>txs w2.
            getUserTransactions net u (uid usr)
                  (Some \<lparr>account_id = None, transaction_type = None, skip = None,
                         limit = Some (Fin 100)\<rparr>) w1 = (Inr txs, w2)
            \<and> txs \<noteq> Null \<and> txs \<noteq> Undefined
          \<longrightarrow> s' = s\<lparr>account := a, transactions := txs, loading := False\<rparr> \<and> w' = w2)"
    using us acc txs l1 l3
    by (cases r3) (auto simp: loadData_def Let_def)
qed


lemma user_screen0: "user screen0 = Some user7" "uid user7 = Fin 7" "account screen0 = Null"
  "alerts screen0 = []"
  by (simp_all add: screen0_def user7_def)

lemma truthy_7: "truthy_num (Fin 7)"
  by (simp add: truthy_num_def)

lemma api_call_answer:
  "api_call scripted req fb \<lparr>log = l, server = answer j # rs\<rparr>
     = (Inr j, \<lparr>log = l @ [req], server = rs\<rparr>)"
  by (simp add: api_call_def fetch_def answer_def)

lemma api_call_rejected:
  "api_call scripted req fb \<lparr>log = l, server = Rejected # rs\<rparr>
     = (Inl (TypeError [EngineText ''fetch failed'']), \<lparr>log = l @ [req], server = rs\<rparr>)"
  by (simp add: api_call_def fetch_def)

lemma accounts_answer:
  "getUserAccounts scripted u i \<lparr>log = l, server = answer j # rs\<rparr>
     = (Inr j, \<lparr>log = l @ [accounts_request u i], server = rs\<rparr>)"
  unfolding getUserAccounts_def accounts_request_def by (rule api_call_answer)

lemma create_answer:
  "createAccount scripted u (default_account i) \<lparr>log = l, server = answer j # rs\<rparr>
     = (Inr j, \<lparr>log = l @ [create_account_request u i], server = rs\<rparr>)"
  unfolding createAccount_def create_account_request_def by (rule api_call_answer)

lemma transactions_answer:
  "getUserTransactions scripted u i
      (Some \<lparr>account_id = None, transaction_type = None, skip = None, limit = Some (Fin 100)\<rparr>)
      \<lparr>log = l, server = answer j # rs\<rparr>
     = (Inr j, \<lparr>log = l @ [transactions_request u i], server = rs\<rparr>)"
  unfolding getUserTransactions_def transactions_request_def
  by (simp add: Let_def api_call_answer)

lemma transactions_rejected:
  "getUserTransactions scripted u i
      (Some \<lparr>account_id = None, transaction_type = None, skip = None, limit = Some (Fin 100)\<rparr>)
      \<lparr>log = l, server = Rejected # rs\<rparr>
     = (Inl (TypeError [EngineText ''fetch failed'']),
        \<lparr>log = l @ [transactions_request u i], server = rs\<rparr>)"
  unfolding getUserTransactions_def transactions_request_def
  by (simp add: Let_def api_call_rejected)

text \<open>
  Claim C8, as stated, fails. The account list is empty and the account is created, but
  the transaction request after it fails: the screen keeps no account and raises an
  alert. The create request names no status.
\<close>

theorem created_account_not_shown:
  "loadData scripted example_url True screen0 w_transactions_fail
     = Some (screen0\<lparr>alerts := [Alert None [Lit ''Error loading data: '', EngineText ''fetch failed'']],
                     loading := False\<rparr>,
             \<lparr>log = [accounts_request example_url (Fin 7),
                     create_account_request example_url (Fin 7),
                     transactions_request example_url (Fin 7)],
              server = []\<rparr>)
   \<and> account (screen0\<lparr>alerts := [Alert None [Lit ''Error loading data: '', EngineText ''fetch failed'']],
                       loading := False\<rparr>) = Null
   \<and> body_keys (create_account_request example_url (Fin 7))
       = [''user_id'', ''account_type'', ''balance'', ''currency'']"
  by (simp add: loadData_def user_screen0 truthy_7 w_transactions_fail_def accounts_answer
      create_answer transactions_rejected load_failed_def show_alert_def truthy_text_def
      body_keys_def create_account_body)

theorem lazy_account_creation_witness:
  "loadData scripted example_url True screen0 w_first_load
     = Some (screen0\<lparr>account := new_account, transactions := Array [], loading := False\<rparr>,
             \<lparr>log = [accounts_request example_url (Fin 7),
                     create_account_request example_url (Fin 7),
                     transactions_request example_url (Fin 7)],
              server = []\<rparr>)
   \<and> loadData scripted example_url True screen0 w_has_account
     = Some (screen0\<lparr>account := new_account, transactions := Array [], loading := False\<rparr>,
             \<lparr>log = [accounts_request example_url (Fin 7),
                     transactions_request example_url (Fin 7)],
              server = []\<rparr>)"
proof -
  have 1: "getUserAccounts scripted example_url (uid user7) w_first_load
      = (Inr (Array []),
         \<lparr>log = [accounts_request example_url (Fin 7)],
          server = [answer new_account, answer (Array [])]\<rparr>)"
    by (simp add: w_first_load_def accounts_answer user_screen0)
  have 2: "createAccount scripted example_url (default_account (uid user7))
        \<lparr>log = [accounts_request example_url (Fin 7)],
         server = [answer new_account, answer (Array [])]\<rparr>
      = (Inr new_account,
         \<lparr>log = [accounts_request example_url (Fin 7), create_account_request example_url (Fin 7)],
          server = [answer (Array [])]\<rparr>)"
    by (simp add: create_answer user_screen0)
  have 3: "getUserTransactions scripted example_url (uid user7)
        (Some \<lparr>account_id = None, transaction_type = None, skip = None, limit = Some (Fin 100)\<rparr>)
        \<lparr>log = [accounts_request example_url (Fin 7), create_account_request example_url (Fin 7)],
         server = [answer (Array [])]\<rparr>
      = (Inr (Array []),
         \<lparr>log = [accounts_request example_url (Fin 7), create_account_request example_url (Fin 7),
                 transactions_request example_url (Fin 7)],
          server = []\<rparr>)"
    by (simp add: transactions_answer user_screen0)
  have 4: "getUserAccounts scripted example_url (uid user7) w_has_account
      = (Inr (Array (new_account # [])),
         \<lparr>log = [accounts_request example_url (Fin 7)], server = [answer (Array [])]\<rparr>)"
    by (simp add: w_has_account_def accounts_answer user_screen0)
  have 5: "getUserTransactions scripted example_url (uid user7)
        (Some \<lparr>account_id = None, transaction_type = None, skip = None, limit = Some (Fin 100)\<rparr>)
        \<lparr>log = [accounts_request example_url (Fin 7)], server = [answer (Array [])]\<rparr>
      = (Inr (Array []),
         \<lparr>log = [accounts_request example_url (Fin 7), transactions_request example_url (Fin 7)],
          server = []\<rparr>)"
    by (simp add: transactions_answer user_screen0)
  have u: "truthy_num (uid user7)"
    by (simp add: user_screen0 truthy_7)
  from lazy_account_creation [THEN conjunct1, rule_format, OF conjI [OF user_screen0(1) conjI [OF u 1]],
      THEN conjunct1, of True]
  obtain s' w' where "loadData scripted example_url True screen0 w_first_load = Some (s', w')"
    and "\<forall>acct w2 txs w3.
      createAccount scripted example_url (default_account (uid user7))
          \<lparr>log = [accounts_request example_url (Fin 7)],
           server = [answer new_account, answer (Array [])]\<rparr> = (Inr acct, w2)
      \<and> getUserTransactions scripted example_url (uid user7)
            (Some \<lparr>account_id = None, transaction_type = None, skip = None,
                   limit = Some (Fin 100)\<rparr>) w2 = (Inr txs, w3)
      \<and> txs \<noteq> Null \<and> txs \<noteq> Undefined
      \<longrightarrow> s' = screen0\<lparr>account := acct, transactions := txs, loading := False\<rparr> \<and> w' = w3"
    by blast
  with 2 3 have a: "loadData scripted example_url True screen0 w_first_load
      = Some (screen0\<lparr>account := new_account, transactions := Array [], loading := False\<rparr>,
             \<lparr>log = [accounts_request example_url (Fin 7),
                     create_account_request example_url (Fin 7),
                     transactions_request example_url (Fin 7)],
              server = []\<rparr>)"
    by simp
  from lazy_account_creation [THEN conjunct2, rule_format, OF conjI [OF user_screen0(1) conjI [OF u 4]],
      of True]
  obtain t' v' where "loadData scripted example_url True screen0 w_has_account = Some (t', v')"
    and "\<forall>txs w2.
      getUserTransactions scripted example_url (uid user7)
            (Some \<lparr>account_id = None, transaction_type = None, skip = None,
                   limit = Some (Fin 100)\<rparr>)
            \<lparr>log = [accounts_request example_url (Fin 7)], server = [answer (Array [])]\<rparr>
        = (Inr txs, w2)
      \<and> txs \<noteq> Null \<and> txs \<noteq> Undefined
      \<longrightarrow> t' = screen0\<lparr>account := new_account, transactions := txs, loading := False\<rparr> \<and> v' = w2"
    by blast
  with 5 have b: "loadData scripted example_url True screen0 w_has_account
      = Some (screen0\<lparr>account := new_account, transactions := Array [], loading := False\<rparr>,
             \<lparr>log = [accounts_request example_url (Fin 7),
                     transactions_request example_url (Fin 7)],
              server = []\<rparr>)"
    by simp
  from a b show ?thesis by (rule conjI)
qed

end
